theory Spec2Isabelle
  imports Complex_Main
begin

section \<open>Errors\<close>

text \<open>
  Every way in which a run of \<^verbatim>\<open>classifiers.py\<close> can stop early is a value.
  \<open>ValueError\<close>, \<open>UnboundLocalError\<close>, \<open>ZeroDivisionError\<close>, \<open>IndexError\<close>,
  \<open>AttributeError\<close> and \<open>TypeError\<close> are raised by the Python code of the file itself;
  \<open>TensorError\<close> stands for any exception raised inside the wrapped tensor library
  (a shape mismatch in a layer, an index out of range in a tensor).
\<close>

datatype py_error =
    ValueError string
  | UnboundLocalError string
  | ZeroDivisionError
  | IndexError
  | AttributeError
  | TypeError
  | TensorError

section \<open>Tensors\<close>

text \<open>
  A tensor is described by its shape, the device it lives on, and the operations that
  produced it, most recent first. Element values are not modelled: the scalars the
  training loop reads out of tensors are given separately (see \<open>config\<close> below).
\<close>

datatype device = Cpu | Cuda

datatype op =
    Long_op | Embedding_op | LSTM_op | Select_op | Dropout_op | Linear_op | Sigmoid_op
  | View_op | Unsqueeze_op | Conv2d_op | Relu_op | Squeeze_op | MaxPool1d_op | Cat_op
  | Zero_op | Ones_op | Data_op | To_op

record tensor =
  shape :: "nat list"
  dev :: device
  ops :: "op list"

definition mk :: "op \<Rightarrow> nat list \<Rightarrow> tensor \<Rightarrow> tensor" where
  "mk f sh x = \<lparr>shape = sh, dev = dev x, ops = f # ops x\<rparr>"

text \<open>\<^verbatim>\<open>x.size(d)\<close>\<close>

definition size_dim :: "tensor \<Rightarrow> nat \<Rightarrow> py_error + nat" where
  "size_dim x d = (if d < length (shape x) then Inr (shape x ! d) else Inl IndexError)"

text \<open>\<^verbatim>\<open>x.long()\<close>, \<^verbatim>\<open>nn.Dropout\<close>, \<^verbatim>\<open>nn.Sigmoid\<close>, \<^verbatim>\<open>F.relu\<close>: the shape is kept.\<close>

definition long :: "tensor \<Rightarrow> tensor" where
  "long x = mk Long_op (shape x) x"

definition dropout :: "tensor \<Rightarrow> tensor" where
  "dropout x = mk Dropout_op (shape x) x"

definition sigmoid :: "tensor \<Rightarrow> tensor" where
  "sigmoid x = mk Sigmoid_op (shape x) x"

definition relu :: "tensor \<Rightarrow> tensor" where
  "relu x = mk Relu_op (shape x) x"

text \<open>\<^verbatim>\<open>nn.Embedding(num_embeddings, embedding_dim)\<close>: one vector per index.\<close>

datatype embedding = Embedding nat nat

fun embedding_call :: "embedding \<Rightarrow> tensor \<Rightarrow> tensor" where
  "embedding_call (Embedding num edim) x = mk Embedding_op (shape x @ [edim]) x"

text \<open>
  \<^verbatim>\<open>nn.Linear(in_features, out_features)\<close>: the last dimension must be \<open>in_features\<close>
  and becomes \<open>out_features\<close>.
\<close>

datatype linear = Linear nat nat

fun linear_call :: "linear \<Rightarrow> tensor \<Rightarrow> py_error + tensor" where
  "linear_call (Linear i n) x =
     (if shape x \<noteq> [] \<and> last (shape x) = i
      then Inr (mk Linear_op (butlast (shape x) @ [n]) x)
      else Inl TensorError)"

text \<open>
  \<^verbatim>\<open>nn.LSTM(input_size, hidden_size, num_layers, batch_first=True)\<close> called with an
  input and a pair of states. A batched input is \<open>[B, L, input_size]\<close> and each state must
  be \<open>[num_layers, B, hidden_size]\<close>; an unbatched input is \<open>[L, input_size]\<close> with
  states \<open>[num_layers, hidden_size]\<close>. The sequence must not be empty.
\<close>

datatype lstm = LSTM nat nat nat

fun lstm_call :: "lstm \<Rightarrow> tensor \<Rightarrow> tensor \<times> tensor \<Rightarrow> py_error + tensor \<times> (tensor \<times> tensor)" where
  "lstm_call (LSTM i hd_sz nl) x (h0, c0) =
     (case shape x of
        [B, L, I] \<Rightarrow>
          if I = i \<and> 0 < L \<and> shape h0 = [nl, B, hd_sz] \<and> shape c0 = [nl, B, hd_sz]
          then Inr (mk LSTM_op [B, L, hd_sz] x,
                    (mk LSTM_op [nl, B, hd_sz] h0, mk LSTM_op [nl, B, hd_sz] c0))
          else Inl TensorError
      | [L, I] \<Rightarrow>
          if I = i \<and> 0 < L \<and> shape h0 = [nl, hd_sz] \<and> shape c0 = [nl, hd_sz]
          then Inr (mk LSTM_op [L, hd_sz] x,
                    (mk LSTM_op [nl, hd_sz] h0, mk LSTM_op [nl, hd_sz] c0))
          else Inl TensorError
      | _ \<Rightarrow> Inl TensorError)"

text \<open>
  Indexing the second dimension with one position and keeping the others:
  \<^verbatim>\<open>t[:, -1, :]\<close> needs at least three dimensions, \<^verbatim>\<open>t[:, 0]\<close> at least two; the
  second dimension must not be empty.
\<close>

definition select_dim1 :: "nat \<Rightarrow> tensor \<Rightarrow> py_error + tensor" where
  "select_dim1 min_ndim x =
     (if min_ndim \<le> length (shape x) \<and> 2 \<le> length (shape x) \<and> 0 < shape x ! 1
      then Inr (mk Select_op (hd (shape x) # drop 2 (shape x)) x)
      else Inl TensorError)"

text \<open>\<^verbatim>\<open>t.view(batch_size, -1)\<close>\<close>

definition view_rows :: "tensor \<Rightarrow> nat \<Rightarrow> py_error + tensor" where
  "view_rows x batch_size =
     (if 0 < batch_size \<and> prod_list (shape x) mod batch_size = 0
      then Inr (mk View_op [batch_size, prod_list (shape x) div batch_size] x)
      else Inl TensorError)"

text \<open>\<^verbatim>\<open>t.unsqueeze(1)\<close> and \<^verbatim>\<open>t.squeeze(d)\<close>\<close>

definition unsqueeze1 :: "tensor \<Rightarrow> py_error + tensor" where
  "unsqueeze1 x =
     (if 1 \<le> length (shape x)
      then Inr (mk Unsqueeze_op (take 1 (shape x) @ [1] @ drop 1 (shape x)) x)
      else Inl TensorError)"

definition squeeze :: "tensor \<Rightarrow> nat \<Rightarrow> py_error + tensor" where
  "squeeze x d =
     (if d < length (shape x)
      then Inr (mk Squeeze_op
                  (if shape x ! d = 1 then take d (shape x) @ drop (Suc d) (shape x)
                   else shape x) x)
      else Inl TensorError)"

text \<open>
  \<^verbatim>\<open>nn.Conv2d(in_channels, out_channels, (kh, kw))\<close>, stride 1, no padding, on a
  batched \<open>[B, C, H, W]\<close> or unbatched \<open>[C, H, W]\<close> input.
\<close>

datatype conv2d = Conv2d nat nat "nat \<times> nat"

fun conv2d_call :: "conv2d \<Rightarrow> tensor \<Rightarrow> py_error + tensor" where
  "conv2d_call (Conv2d ic oc (kh, kw)) x =
     (case shape x of
        [B, C, H, W] \<Rightarrow>
          if C = ic \<and> 0 < kh \<and> 0 < kw \<and> kh \<le> H \<and> kw \<le> W
          then Inr (mk Conv2d_op [B, oc, H - kh + 1, W - kw + 1] x)
          else Inl TensorError
      | [C, H, W] \<Rightarrow>
          if C = ic \<and> 0 < kh \<and> 0 < kw \<and> kh \<le> H \<and> kw \<le> W
          then Inr (mk Conv2d_op [oc, H - kh + 1, W - kw + 1] x)
          else Inl TensorError
      | _ \<Rightarrow> Inl TensorError)"

text \<open>\<^verbatim>\<open>F.max_pool1d(t, k)\<close>: window and stride \<open>k\<close> over the last dimension.\<close>

definition max_pool1d :: "tensor \<Rightarrow> nat \<Rightarrow> py_error + tensor" where
  "max_pool1d x k =
     (case shape x of
        [N, C, L] \<Rightarrow>
          if 0 < k \<and> k \<le> L then Inr (mk MaxPool1d_op [N, C, (L - k) div k + 1] x)
          else Inl TensorError
      | [C, L] \<Rightarrow>
          if 0 < k \<and> k \<le> L then Inr (mk MaxPool1d_op [C, (L - k) div k + 1] x)
          else Inl TensorError
      | _ \<Rightarrow> Inl TensorError)"

text \<open>
  \<^verbatim>\<open>torch.cat(ts, 1)\<close>: the list is not empty and the tensors agree on every dimension
  but the second, whose sizes add up.
\<close>

definition cat1 :: "tensor list \<Rightarrow> py_error + tensor" where
  "cat1 ts =
     (case ts of
        [] \<Rightarrow> Inl TensorError
      | t # _ \<Rightarrow>
          if 2 \<le> length (shape t) \<and>
             (\<forall>u \<in> set ts. length (shape u) = length (shape t) \<and>
                            hd (shape u) = hd (shape t) \<and> drop 2 (shape u) = drop 2 (shape t))
          then Inr (mk Cat_op (hd (shape t) # sum_list (map (\<lambda>u. shape u ! 1) ts) # drop 2 (shape t)) t)
          else Inl TensorError)"

text \<open>A list comprehension whose body may raise: the first error ends it.\<close>

fun map_err :: "('a \<Rightarrow> py_error + 'b) \<Rightarrow> 'a list \<Rightarrow> py_error + 'b list" where
  "map_err f [] = Inr []"
| "map_err f (x # xs) =
     (case f x of
        Inl e \<Rightarrow> Inl e
      | Inr y \<Rightarrow> (case map_err f xs of Inl e \<Rightarrow> Inl e | Inr ys \<Rightarrow> Inr (y # ys)))"

section \<open>The three model classes\<close>

subsection \<open>RNN\<close>

record rnn =
  rnn_output_size :: nat
  rnn_n_layers :: nat
  rnn_hidden_dim :: nat
  rnn_embedding :: embedding
  rnn_lstm :: lstm
  rnn_fc :: linear

definition RNN_init :: "nat \<Rightarrow> nat \<Rightarrow> nat \<Rightarrow> nat \<Rightarrow> nat \<Rightarrow> rnn" where
  "RNN_init vocab_size output_size embedding_dim hidden_dim n_layers =
     \<lparr>rnn_output_size = output_size,
      rnn_n_layers = n_layers,
      rnn_hidden_dim = hidden_dim,
      rnn_embedding = Embedding vocab_size embedding_dim,
      rnn_lstm = LSTM embedding_dim hidden_dim n_layers,
      rnn_fc = Linear hidden_dim output_size\<rparr>"

definition RNN_forward :: "rnn \<Rightarrow> tensor \<Rightarrow> tensor \<times> tensor \<Rightarrow> py_error + tensor \<times> (tensor \<times> tensor)" where
  "RNN_forward m x hidden =
     (case size_dim x 0 of
        Inl e \<Rightarrow> Inl e
      | Inr batch_size \<Rightarrow>
          (let embeds = embedding_call (rnn_embedding m) (long x) in
           case lstm_call (rnn_lstm m) embeds hidden of
             Inl e \<Rightarrow> Inl e
           | Inr (lstm_out, hidden') \<Rightarrow>
               (case select_dim1 3 lstm_out of
                  Inl e \<Rightarrow> Inl e
                | Inr last_step \<Rightarrow>
                    (case linear_call (rnn_fc m) (dropout last_step) of
                       Inl e \<Rightarrow> Inl e
                     | Inr out \<Rightarrow>
                         (case view_rows (sigmoid out) batch_size of
                            Inl e \<Rightarrow> Inl e
                          | Inr out' \<Rightarrow> Inr (out', hidden'))))))"

text \<open>
  \<^verbatim>\<open>init_hidden\<close>: two zero tensors of shape \<open>(n_layers, batch_size, hidden_dim)\<close>, on
  the CUDA device when there is one.
\<close>

definition init_hidden :: "rnn \<Rightarrow> bool \<Rightarrow> nat \<Rightarrow> tensor \<times> tensor" where
  "init_hidden m cuda_is_available batch_size =
     (let device = (if cuda_is_available then Cuda else Cpu);
          z = \<lparr>shape = [rnn_n_layers m, batch_size, rnn_hidden_dim m], dev = device,
               ops = [Zero_op]\<rparr>
      in (z, z))"

subsection \<open>CNN\<close>

record cnn =
  cnn_embedding :: embedding
  cnn_convs1 :: "conv2d list"
  cnn_fc1 :: linear

definition CNN_init :: "nat \<Rightarrow> nat \<Rightarrow> nat list \<Rightarrow> nat list \<Rightarrow> py_error + cnn" where
  "CNN_init max_features embed_size num_filters filter_sizes =
     (if num_filters = [] then Inl IndexError
      else Inr \<lparr>cnn_embedding = Embedding max_features embed_size,
                cnn_convs1 = map (\<lambda>(n, K). Conv2d 1 n (K, embed_size)) (zip num_filters filter_sizes),
                cnn_fc1 = Linear (last num_filters * length filter_sizes) 5\<rparr>)"

definition conv_branch :: "tensor \<Rightarrow> conv2d \<Rightarrow> py_error + tensor" where
  "conv_branch x conv =
     (case conv2d_call conv x of Inl e \<Rightarrow> Inl e | Inr y \<Rightarrow> squeeze (relu y) 3)"

definition pool_branch :: "tensor \<Rightarrow> py_error + tensor" where
  "pool_branch i =
     (case size_dim i 2 of
        Inl e \<Rightarrow> Inl e
      | Inr k \<Rightarrow> (case max_pool1d i k of Inl e \<Rightarrow> Inl e | Inr p \<Rightarrow> squeeze p 2))"

definition CNN_forward :: "cnn \<Rightarrow> tensor \<Rightarrow> py_error + tensor" where
  "CNN_forward m x =
     (case unsqueeze1 (embedding_call (cnn_embedding m) (long x)) of
        Inl e \<Rightarrow> Inl e
      | Inr x1 \<Rightarrow>
          (case map_err (conv_branch x1) (cnn_convs1 m) of
             Inl e \<Rightarrow> Inl e
           | Inr xs \<Rightarrow>
               (case map_err pool_branch xs of
                  Inl e \<Rightarrow> Inl e
                | Inr ps \<Rightarrow>
                    (case cat1 ps of
                       Inl e \<Rightarrow> Inl e
                     | Inr c \<Rightarrow> linear_call (cnn_fc1 m) (dropout c)))))"

subsection \<open>CamembertClassifier\<close>

text \<open>
  The pretrained encoder is a collaborator: a function from the token ids and the
  attention mask to the triple the class unpacks (the contextual representations, the
  pooled output, the attention weights), or an error. \<open>CamembertClassifier_init\<close> takes
  it together with its \<^verbatim>\<open>pooler.dense.out_features\<close>.
\<close>

type_synonym encoder = "tensor \<Rightarrow> tensor \<Rightarrow> py_error + tensor \<times> tensor \<times> tensor list"

record camembert =
  encoder :: encoder
  cls_layer :: linear

definition CamembertClassifier_init :: "encoder \<Rightarrow> nat \<Rightarrow> camembert" where
  "CamembertClassifier_init pretrained out_features =
     \<lparr>encoder = pretrained, cls_layer = Linear out_features 5\<rparr>"

definition CamembertClassifier_forward ::
    "camembert \<Rightarrow> tensor \<Rightarrow> tensor \<Rightarrow> py_error + tensor \<times> tensor list" where
  "CamembertClassifier_forward m seq attn_masks =
     (case encoder m seq attn_masks of
        Inl e \<Rightarrow> Inl e
      | Inr (cont_reps, _, attentions) \<Rightarrow>
          (case select_dim1 2 cont_reps of
             Inl e \<Rightarrow> Inl e
           | Inr cls_rep \<Rightarrow>
               (case linear_call (cls_layer m) cls_rep of
                  Inl e \<Rightarrow> Inl e
                | Inr logits \<Rightarrow> Inr (logits, attentions))))"

section \<open>Scalars\<close>

text \<open>
  The numbers the training loop adds and divides are Python ints, Python floats and
  zero-dimensional float tensors. Floating-point values are idealised: a finite value is
  a real number and arithmetic on finite values is exact, but the special values are kept,
  because dividing a tensor by zero gives one of them while dividing a Python number by
  zero raises.
\<close>

datatype fval = Fin real | PInf | NInf | NaN

fun fadd :: "fval \<Rightarrow> fval \<Rightarrow> fval" where
  "fadd (Fin a) (Fin b) = Fin (a + b)"
| "fadd (Fin a) y = y"
| "fadd NaN y = NaN"
| "fadd PInf y = (if y = NInf \<or> y = NaN then NaN else PInf)"
| "fadd NInf y = (if y = PInf \<or> y = NaN then NaN else NInf)"

fun fdiv_int :: "fval \<Rightarrow> int \<Rightarrow> fval" where
  "fdiv_int (Fin a) n =
     (if n = 0 then (if a = 0 then NaN else if 0 < a then PInf else NInf)
      else Fin (a / of_int n))"
| "fdiv_int PInf n = (if n < 0 then NInf else PInf)"
| "fdiv_int NInf n = (if n < 0 then PInf else NInf)"
| "fdiv_int NaN n = NaN"

datatype num = PyInt int | PyFloat fval | Scalar_tensor fval

fun as_fval :: "num \<Rightarrow> fval" where
  "as_fval (PyInt i) = Fin (of_int i)"
| "as_fval (PyFloat f) = f"
| "as_fval (Scalar_tensor f) = f"

text \<open>\<^verbatim>\<open>a + b\<close>: a tensor operand makes the sum a tensor, a float operand a float.\<close>

fun py_add :: "num \<Rightarrow> num \<Rightarrow> num" where
  "py_add (PyInt a) (PyInt b) = PyInt (a + b)"
| "py_add (Scalar_tensor a) y = Scalar_tensor (fadd a (as_fval y))"
| "py_add x (Scalar_tensor b) = Scalar_tensor (fadd (as_fval x) b)"
| "py_add x y = PyFloat (fadd (as_fval x) (as_fval y))"

text \<open>
  \<^verbatim>\<open>a / n\<close> for a Python int \<open>n\<close>: a Python int or float divided by zero raises
  \<open>ZeroDivisionError\<close>, a tensor divided by zero is infinite or not a number.
\<close>

fun py_truediv :: "num \<Rightarrow> int \<Rightarrow> py_error + num" where
  "py_truediv (Scalar_tensor a) n = Inr (Scalar_tensor (fdiv_int a n))"
| "py_truediv (PyInt a) n =
     (if n = 0 then Inl ZeroDivisionError else Inr (PyFloat (Fin (of_int a / of_int n))))"
| "py_truediv (PyFloat a) n =
     (if n = 0 then Inl ZeroDivisionError else Inr (PyFloat (fdiv_int a n)))"

section \<open>The arguments of train and its collaborators\<close>

datatype model = RNN_model rnn | CNN_model cnn | Camembert_model camembert

datatype scheduler = Scheduler

datatype phase = Training | Validation

text \<open>
  A data loader has a configured \<^verbatim>\<open>batch_size\<close> and yields, at every pass, a list of
  batches; a batch is the tuple of tensors the loop unpacks.
\<close>

record loader =
  batch_size :: nat
  batches :: "tensor list list"

text \<open>
  The record holds the arguments of \<^verbatim>\<open>train\<close> and what the outside world answers:
  \<^item> \<open>cuda_is_available\<close> is \<^verbatim>\<open>torch.cuda.is_available()\<close>;
  \<^item> \<open>criterion c ph ep i\<close> is the scalar that the loss function returns at iteration
    \<open>i\<close> of phase \<open>ph\<close> of epoch \<open>ep\<close> (it depends on the weights at that moment, which
    are not modelled);
  \<^item> \<open>accuracy c ph ep i\<close> is the value of
    \<^verbatim>\<open>torch.sum(torch.argmax(output,dim=1)==labels)/float(labels.size(0))\<close> there;
  \<^item> \<open>early_stop c patience vs\<close> is the flag \<^verbatim>\<open>early_stopping.early_stop\<close> of a
    monitor created with that patience, after it has been called with the values \<open>vs\<close>
    in this order. The class \<^verbatim>\<open>EarlyStopping\<close> is imported from
    \<^verbatim>\<open>utils.pytorchtools\<close>.
  The number of epochs is a natural number. The loss function, the optimizer, the
  scheduler, the monitor and the plot are taken to return when they are called.
\<close>

record config =
  model :: model
  model_type :: string
  activate_early_stopping :: bool
  scheduler :: "scheduler option"
  train_loader :: loader
  val_loader :: loader
  n_epochs :: nat
  gpu :: bool
  print_every :: int
  print_validation_every :: int
  earl_stopping_patience :: int
  cuda_is_available :: bool
  criterion :: "phase \<Rightarrow> nat \<Rightarrow> nat \<Rightarrow> fval"
  accuracy :: "phase \<Rightarrow> nat \<Rightarrow> nat \<Rightarrow> fval"
  early_stop :: "int \<Rightarrow> num list \<Rightarrow> bool"

section \<open>What a run does\<close>

text \<open>
  The calls a run makes on its collaborators are recorded in order. \<open>Forward\<close> and
  \<open>Criterion\<close> carry the phase, the epoch, the iteration and the arguments of the call;
  \<open>Tensors_ready\<close> records the three local variables \<^verbatim>\<open>seq\<close>, \<^verbatim>\<open>attn_masks\<close>,
  \<^verbatim>\<open>labels\<close> after the optional move to the device; \<open>Print_early_stopping\<close> carries
  the epoch in which the line is printed.
\<close>

datatype call_args =
    Rnn_args tensor "tensor \<times> tensor"
  | Cnn_args tensor
  | Bert_args tensor tensor

datatype event =
    Model_to device
  | Zero_grad
  | Tensors_ready phase nat nat tensor tensor tensor
  | Forward phase nat nat call_args
  | Criterion phase nat nat tensor tensor
  | Backward
  | Optimizer_step
  | Print_iteration int int
  | Scheduler_step num
  | Model_eval
  | Print_validation num num
  | Early_stopping_call num
  | Print_early_stopping nat
  | Model_train
  | Plot "num list" "num list" "num list" "num list"

text \<open>
  The local variables of \<^verbatim>\<open>train\<close>. \<open>it\<close>, \<open>h\<close> and \<open>val_h\<close> are unbound until their
  first assignment. \<open>observed\<close> is what the early-stopping monitor has been called with.
\<close>

record state =
  hist_loss :: "num list"
  hist_accuracy :: "num list"
  val_hist_loss :: "num list"
  val_hist_accuracy :: "num list"
  running_loss :: num
  running_accuracy :: num
  it :: "nat option"
  h :: "(tensor \<times> tensor) option"
  val_h :: "(tensor \<times> tensor) option"
  n_batch_validation :: nat
  loss_validation :: num
  accuracy_validation :: num
  observed :: "num list"
  events :: "event list"

type_synonym 'a result = "(py_error \<times> state) + 'a"

definition emit :: "event list \<Rightarrow> state \<Rightarrow> state" where
  "emit es s = s\<lparr>events := events s @ es\<rparr>"

subsection \<open>One iteration\<close>

definition not_supported :: "string \<Rightarrow> py_error" where
  "not_supported mt =
     ValueError (''Model type '' @ [CHR 0x22] @ mt @ [CHR 0x22] @ '' not supported.'')"

definition torch_ones_1 :: tensor where
  "torch_ones_1 = \<lparr>shape = [1], dev = Cpu, ops = [Ones_op]\<rparr>"

definition unpack :: "string \<Rightarrow> tensor list \<Rightarrow> py_error + tensor \<times> tensor \<times> tensor" where
  "unpack mt data =
     (if mt = ''bert'' then
        (case data of
           [a, b, c] \<Rightarrow> Inr (a, b, c)
         | _ \<Rightarrow> Inl (ValueError ''wrong number of values to unpack''))
      else if mt \<in> set [''rnn'', ''cnn''] then
        (case data of
           a # b # _ \<Rightarrow> Inr (a, torch_ones_1, b)
         | _ \<Rightarrow> Inl IndexError)
      else Inl (not_supported mt))"

text \<open>\<^verbatim>\<open>labels.type(torch.LongTensor)\<close>: a CPU tensor of 64-bit integers.\<close>

definition type_LongTensor :: "tensor \<Rightarrow> tensor" where
  "type_LongTensor x = \<lparr>shape = shape x, dev = Cpu, ops = Long_op # ops x\<rparr>"

definition to_device :: "device \<Rightarrow> tensor \<Rightarrow> tensor" where
  "to_device d x = (if dev x = d then x else \<lparr>shape = shape x, dev = d, ops = To_op # ops x\<rparr>)"

definition device_of :: "config \<Rightarrow> device" where
  "device_of c = (if cuda_is_available c then Cuda else Cpu)"

definition move_batch :: "config \<Rightarrow> tensor \<times> tensor \<times> tensor \<Rightarrow> tensor \<times> tensor \<times> tensor" where
  "move_batch c b =
     (case b of (seq, attn_masks, labels) \<Rightarrow>
        if gpu c
        then (to_device (device_of c) seq, to_device (device_of c) attn_masks,
              to_device (device_of c) labels)
        else (seq, attn_masks, labels))"

text \<open>\<^verbatim>\<open>tuple([e.data for e in h])\<close>\<close>

definition detach :: "tensor \<times> tensor \<Rightarrow> tensor \<times> tensor" where
  "detach hid = (mk Data_op (shape (fst hid)) (fst hid), mk Data_op (shape (snd hid)) (snd hid))"

text \<open>
  Calling the model object with the arguments of one of the three conventions. A model
  of another class rejects the call; an \<open>RNN\<close> given a mask where it expects the pair of
  states fails inside its LSTM. The model lives on the device \<open>d\<close> it was moved to, and
  its layers fail on a tensor that lives elsewhere.
\<close>

fun tensors_of :: "call_args \<Rightarrow> tensor list" where
  "tensors_of (Rnn_args x hid) = [x, fst hid, snd hid]"
| "tensors_of (Cnn_args x) = [x]"
| "tensors_of (Bert_args x a) = [x, a]"

definition call_model ::
    "device \<Rightarrow> model \<Rightarrow> call_args \<Rightarrow> py_error + tensor \<times> (tensor \<times> tensor) option" where
  "call_model d m a =
     (case (m, a) of
        (RNN_model r, Rnn_args x hid) \<Rightarrow>
          if list_all (\<lambda>t. dev t = d) (tensors_of a) then
            (case RNN_forward r x hid of
               Inl e \<Rightarrow> Inl e
             | Inr (out, hid') \<Rightarrow> Inr (out, Some hid'))
          else Inl TensorError
      | (CNN_model cm, Cnn_args x) \<Rightarrow>
          if list_all (\<lambda>t. dev t = d) (tensors_of a) then
            (case CNN_forward cm x of Inl e \<Rightarrow> Inl e | Inr l \<Rightarrow> Inr (l, None))
          else Inl TensorError
      | (Camembert_model b, Bert_args x am) \<Rightarrow>
          if list_all (\<lambda>t. dev t = d) (tensors_of a) then
            (case CamembertClassifier_forward b x am of
               Inl e \<Rightarrow> Inl e
             | Inr (logits, attentions) \<Rightarrow> Inr (logits, None))
          else Inl TensorError
      | (RNN_model r, Bert_args x am) \<Rightarrow> Inl TensorError
      | _ \<Rightarrow> Inl TypeError)"

definition invoke ::
    "config \<Rightarrow> phase \<Rightarrow> nat \<Rightarrow> nat \<Rightarrow> call_args \<Rightarrow> state \<Rightarrow>
     (tensor \<times> (tensor \<times> tensor) option \<times> state) result" where
  "invoke c ph ep i a s =
     (let s1 = emit [Forward ph ep i a] s in
      case call_model (device_of c) (model c) a of
        Inl e \<Rightarrow> Inl (e, s1)
      | Inr (out, hid) \<Rightarrow> Inr (out, hid, s1))"

definition hidden_var :: "phase \<Rightarrow> state \<Rightarrow> (tensor \<times> tensor) option" where
  "hidden_var ph s = (case ph of Training \<Rightarrow> h s | Validation \<Rightarrow> val_h s)"

definition set_hidden :: "phase \<Rightarrow> (tensor \<times> tensor) option \<Rightarrow> state \<Rightarrow> state" where
  "set_hidden ph v s = (case ph of Training \<Rightarrow> s\<lparr>h := v\<rparr> | Validation \<Rightarrow> s\<lparr>val_h := v\<rparr>)"

text \<open>The forward-dispatch site (lines 123 to 131 and 180 to 188).\<close>

definition forward_dispatch ::
    "config \<Rightarrow> phase \<Rightarrow> nat \<Rightarrow> nat \<Rightarrow> tensor \<Rightarrow> tensor \<Rightarrow> state \<Rightarrow> (tensor \<times> state) result" where
  "forward_dispatch c ph ep i seq attn_masks s =
     (if model_type c = ''rnn'' then
        (case hidden_var ph s of
           None \<Rightarrow> Inl (UnboundLocalError ''h'', s)
         | Some hid \<Rightarrow>
             (let s1 = set_hidden ph (Some (detach hid)) s in
              case invoke c ph ep i (Rnn_args seq (detach hid)) s1 of
                Inl es \<Rightarrow> Inl es
              | Inr (output, hid', s2) \<Rightarrow> Inr (output, set_hidden ph hid' s2)))
      else if model_type c = ''cnn'' then
        (case invoke c ph ep i (Cnn_args seq) s of
           Inl es \<Rightarrow> Inl es
         | Inr (output, _, s2) \<Rightarrow> Inr (output, s2))
      else if model_type c = ''bert'' then
        (case invoke c ph ep i (Bert_args seq attn_masks) s of
           Inl es \<Rightarrow> Inl es
         | Inr (output, _, s2) \<Rightarrow> Inr (output, s2))
      else Inl (not_supported (model_type c), s))"

text \<open>\<^verbatim>\<open>output.squeeze(-1)\<close>\<close>

definition squeeze_last :: "tensor \<Rightarrow> tensor" where
  "squeeze_last x =
     mk Squeeze_op (if shape x \<noteq> [] \<and> last (shape x) = 1 then butlast (shape x) else shape x) x"

text \<open>
  \<^verbatim>\<open>torch.sum(torch.argmax(output,dim=1)==labels)/float(labels.size(0))\<close>.
  \<^verbatim>\<open>argmax\<close> needs a second dimension that is not empty and removes it; the comparison
  needs operands of one device (unless the labels are a single number) and of shapes
  that broadcast; \<^verbatim>\<open>labels.size(0)\<close> needs a first dimension. The result is a tensor.
\<close>

definition broadcastable :: "nat list \<Rightarrow> nat list \<Rightarrow> bool" where
  "broadcastable a b = list_all (\<lambda>(m, n). m = n \<or> m = 1 \<or> n = 1) (zip (rev a) (rev b))"

definition accuracy_of ::
    "config \<Rightarrow> phase \<Rightarrow> nat \<Rightarrow> nat \<Rightarrow> tensor \<Rightarrow> tensor \<Rightarrow> py_error + num" where
  "accuracy_of c ph ep i output labels =
     (if length (shape output) < 2 \<or> shape output ! 1 = 0 then Inl TensorError
      else if dev output \<noteq> dev labels \<and> shape labels \<noteq> [] then Inl TensorError
      else if \<not> broadcastable (hd (shape output) # drop 2 (shape output)) (shape labels)
      then Inl TensorError
      else (case size_dim labels 0 of
              Inl e \<Rightarrow> Inl e
            | Inr n \<Rightarrow> Inr (Scalar_tensor (accuracy c ph ep i))))"

text \<open>Lines 108 to 121 and 168 to 178: unpack, cast the labels, move to the device.\<close>

definition prepare ::
    "config \<Rightarrow> phase \<Rightarrow> nat \<Rightarrow> nat \<Rightarrow> tensor list \<Rightarrow> state \<Rightarrow> (tensor \<times> tensor \<times> tensor \<times> state) result" where
  "prepare c ph ep i data s =
     (case unpack (model_type c) data of
        Inl e \<Rightarrow> Inl (e, s)
      | Inr (seq0, attn0, labels0) \<Rightarrow>
          (let s1 = (case ph of Training \<Rightarrow> emit [Zero_grad] s | Validation \<Rightarrow> s) in
           case move_batch c (seq0, attn0, type_LongTensor labels0) of
             (seq, attn_masks, labels) \<Rightarrow>
               Inr (seq, attn_masks, labels,
                    emit [Tensors_ready ph ep i seq attn_masks labels] s1)))"

text \<open>The body of the training loop (lines 108 to 147).\<close>

definition train_iteration :: "config \<Rightarrow> nat \<Rightarrow> nat \<times> tensor list \<Rightarrow> state \<Rightarrow> state result" where
  "train_iteration c ep idata s =
     (case idata of (i, data) \<Rightarrow>
        (case prepare c Training ep i data (s\<lparr>it := Some i\<rparr>) of
           Inl es \<Rightarrow> Inl es
         | Inr (seq, attn_masks, labels, s1) \<Rightarrow>
             (case forward_dispatch c Training ep i seq attn_masks s1 of
                Inl es \<Rightarrow> Inl es
              | Inr (output, s2) \<Rightarrow>
                  (let loss = Scalar_tensor (criterion c Training ep i);
                       s3 = emit [Criterion Training ep i (squeeze_last output) labels,
                                  Backward, Optimizer_step]
                              (s2\<lparr>running_loss := py_add (running_loss s2) loss\<rparr>)
                   in case accuracy_of c Training ep i output labels of
                        Inl e \<Rightarrow> Inl (e, s3)
                      | Inr acc \<Rightarrow>
                          (let s4 = s3\<lparr>running_accuracy := py_add (running_accuracy s3) acc\<rparr>
                           in if print_every c = 0 then Inl (ZeroDivisionError, s4)
                              else if (int i + 1) mod print_every c = 0
                              then Inr (emit [Print_iteration (int i + 1) (int ep + 1)] s4)
                              else Inr s4)))))"

text \<open>The body of the validation loop (lines 168 to 196).\<close>

definition val_iteration :: "config \<Rightarrow> nat \<Rightarrow> nat \<times> tensor list \<Rightarrow> state \<Rightarrow> state result" where
  "val_iteration c ep idata s =
     (case idata of (i, data) \<Rightarrow>
        (case prepare c Validation ep i data (s\<lparr>it := Some i\<rparr>) of
           Inl es \<Rightarrow> Inl es
         | Inr (seq, attn_masks, labels, s1) \<Rightarrow>
             (case forward_dispatch c Validation ep i seq attn_masks s1 of
                Inl es \<Rightarrow> Inl es
              | Inr (out, s2) \<Rightarrow>
                  (let s3 = emit [Criterion Validation ep i (squeeze_last out) labels]
                              (s2\<lparr>n_batch_validation := n_batch_validation s2 + 1\<rparr>);
                       loss' = PyFloat (criterion c Validation ep i)
                   in case accuracy_of c Validation ep i out labels of
                        Inl e \<Rightarrow> Inl (e, s3)
                      | Inr accu \<Rightarrow>
                          Inr (s3\<lparr>loss_validation := py_add (loss_validation s3) loss',
                                  accuracy_validation := py_add (accuracy_validation s3) accu\<rparr>)))))"

subsection \<open>Loops\<close>

text \<open>A \<^verbatim>\<open>for\<close> loop whose body may raise.\<close>

fun for_each :: "('a \<Rightarrow> state \<Rightarrow> state result) \<Rightarrow> 'a list \<Rightarrow> state \<Rightarrow> state result" where
  "for_each body [] s = Inr s"
| "for_each body (x # xs) s =
     (case body x s of Inl es \<Rightarrow> Inl es | Inr s' \<Rightarrow> for_each body xs s')"

text \<open>\<^verbatim>\<open>model.init_hidden(n)\<close>: only the class \<open>RNN\<close> has the method.\<close>

definition call_init_hidden :: "config \<Rightarrow> nat \<Rightarrow> py_error + tensor \<times> tensor" where
  "call_init_hidden c n =
     (case model c of
        RNN_model r \<Rightarrow> Inr (init_hidden r (cuda_is_available c) n)
      | _ \<Rightarrow> Inl AttributeError)"

definition init_hidden_if_rnn :: "config \<Rightarrow> phase \<Rightarrow> loader \<Rightarrow> state \<Rightarrow> state result" where
  "init_hidden_if_rnn c ph ld s =
     (if model_type c = ''rnn'' then
        (case call_init_hidden c (batch_size ld) of
           Inl e \<Rightarrow> Inl (e, s)
         | Inr hid \<Rightarrow> Inr (set_hidden ph (Some hid) s))
      else Inr s)"

definition scheduler_step :: "config \<Rightarrow> state \<Rightarrow> state" where
  "scheduler_step c s =
     (if scheduler c \<noteq> None then emit [Scheduler_step (running_loss s)] s else s)"

text \<open>Lines 153 to 155: the loop variable \<open>it\<close> is read after the loop.\<close>

definition update_training_history :: "state \<Rightarrow> state result" where
  "update_training_history s =
     (case it s of
        None \<Rightarrow> Inl (UnboundLocalError ''it'', s)
      | Some i \<Rightarrow>
          (case py_truediv (running_loss s) (int i) of
             Inl e \<Rightarrow> Inl (e, s)
           | Inr l \<Rightarrow>
               (let s1 = s\<lparr>hist_loss := hist_loss s @ [l]\<rparr> in
                case py_truediv (running_accuracy s1) (int i) of
                  Inl e \<Rightarrow> Inl (e, s1)
                | Inr a \<Rightarrow> Inr (s1\<lparr>hist_accuracy := hist_accuracy s1 @ [a]\<rparr>))))"

text \<open>Lines 101 to 155.\<close>

definition training_phase :: "config \<Rightarrow> nat \<Rightarrow> state \<Rightarrow> state result" where
  "training_phase c ep s =
     (case init_hidden_if_rnn c Training (train_loader c)
             (s\<lparr>running_loss := PyInt 0, running_accuracy := PyInt 0\<rparr>) of
        Inl es \<Rightarrow> Inl es
      | Inr s1 \<Rightarrow>
          (case for_each (train_iteration c ep) (enumerate 0 (batches (train_loader c))) s1 of
             Inl es \<Rightarrow> Inl es
           | Inr s2 \<Rightarrow> update_training_history (scheduler_step c s2)))"

text \<open>Lines 197 to 202: the two means are computed for the printed line and again for the history.\<close>

definition validation_means :: "state \<Rightarrow> py_error + num \<times> num" where
  "validation_means s =
     (case py_truediv (loss_validation s) (int (n_batch_validation s)) of
        Inl e \<Rightarrow> Inl e
      | Inr l \<Rightarrow>
          (case py_truediv (accuracy_validation s) (int (n_batch_validation s)) of
             Inl e \<Rightarrow> Inl e
           | Inr a \<Rightarrow> Inr (l, a)))"

definition validation_printing :: "config \<Rightarrow> nat \<Rightarrow> state \<Rightarrow> state result" where
  "validation_printing c ep s =
     (if print_validation_every c = 0 then Inl (ZeroDivisionError, s)
      else if int ep mod print_validation_every c = 0 then
        (case validation_means s of
           Inl e \<Rightarrow> Inl (e, s)
         | Inr (l, a) \<Rightarrow> Inr (emit [Print_validation l a] s))
      else Inr s)"

definition update_validation_history :: "state \<Rightarrow> state result" where
  "update_validation_history s =
     (case py_truediv (loss_validation s) (int (n_batch_validation s)) of
        Inl e \<Rightarrow> Inl (e, s)
      | Inr l \<Rightarrow>
          (let s1 = s\<lparr>val_hist_loss := val_hist_loss s @ [l]\<rparr> in
           case py_truediv (accuracy_validation s1) (int (n_batch_validation s1)) of
             Inl e \<Rightarrow> Inl (e, s1)
           | Inr a \<Rightarrow> Inr (s1\<lparr>val_hist_accuracy := val_hist_accuracy s1 @ [a]\<rparr>)))"

text \<open>Lines 157 to 202.\<close>

definition validation_phase :: "config \<Rightarrow> nat \<Rightarrow> state \<Rightarrow> state result" where
  "validation_phase c ep s =
     (case init_hidden_if_rnn c Validation (val_loader c)
             (emit [Model_eval] (s\<lparr>n_batch_validation := 0, loss_validation := PyInt 0,
                                   accuracy_validation := PyInt 0\<rparr>)) of
        Inl es \<Rightarrow> Inl es
      | Inr s1 \<Rightarrow>
          (case for_each (val_iteration c ep) (enumerate 0 (batches (val_loader c))) s1 of
             Inl es \<Rightarrow> Inl es
           | Inr s2 \<Rightarrow>
               (case validation_printing c ep s2 of
                  Inl es \<Rightarrow> Inl es
                | Inr s3 \<Rightarrow> update_validation_history s3)))"

text \<open>
  Lines 203 to 209. The result says whether the loop over the epochs is left by
  \<^verbatim>\<open>break\<close>; \<^verbatim>\<open>model.train()\<close> is reached only when it is not.
\<close>

definition early_stopping_step :: "config \<Rightarrow> nat \<Rightarrow> state \<Rightarrow> bool \<times> state" where
  "early_stopping_step c ep s =
     (if activate_early_stopping c then
        (let s1 = emit [Early_stopping_call (loss_validation s)]
                    (s\<lparr>observed := observed s @ [loss_validation s]\<rparr>)
         in if early_stop c (earl_stopping_patience c) (observed s1)
            then (True, emit [Print_early_stopping ep] s1)
            else (False, emit [Model_train] s1))
      else (False, emit [Model_train] s))"

definition epoch :: "config \<Rightarrow> nat \<Rightarrow> state \<Rightarrow> (bool \<times> state) result" where
  "epoch c ep s =
     (case training_phase c ep s of
        Inl es \<Rightarrow> Inl es
      | Inr s1 \<Rightarrow>
          (case validation_phase c ep s1 of
             Inl es \<Rightarrow> Inl es
           | Inr s2 \<Rightarrow> Inr (early_stopping_step c ep s2)))"

fun for_epochs :: "config \<Rightarrow> nat list \<Rightarrow> state \<Rightarrow> state result" where
  "for_epochs c [] s = Inr s"
| "for_epochs c (ep # eps) s =
     (case epoch c ep s of
        Inl es \<Rightarrow> Inl es
      | Inr (break, s') \<Rightarrow> if break then Inr s' else for_epochs c eps s')"

subsection \<open>train\<close>

definition initial_state :: "config \<Rightarrow> state" where
  "initial_state c =
     \<lparr>hist_loss = [], hist_accuracy = [], val_hist_loss = [], val_hist_accuracy = [],
      running_loss = PyInt 0, running_accuracy = PyInt 0,
      it = None, h = None, val_h = None,
      n_batch_validation = 0, loss_validation = PyInt 0, accuracy_validation = PyInt 0,
      observed = [],
      events = [Model_to (device_of c)]\<rparr>"

definition plot_history :: "state \<Rightarrow> state" where
  "plot_history s =
     emit [Plot (hist_loss s) (val_hist_loss s) (hist_accuracy s) (val_hist_accuracy s)] s"

definition train :: "config \<Rightarrow> state result" where
  "train c =
     (case for_epochs c [0..<n_epochs c] (initial_state c) of
        Inl es \<Rightarrow> Inl es
      | Inr s \<Rightarrow> Inr (plot_history s))"

section \<open>Notions used by the properties\<close>

text \<open>
  A tensor is a raw output of a linear layer when the last operation that touched its
  values is the linear layer: only reshaping operations may follow it.
\<close>

definition reshaping :: "op \<Rightarrow> bool" where
  "reshaping f = (f = View_op \<or> f = Squeeze_op \<or> f = Unsqueeze_op \<or> f = Select_op)"

definition raw_linear_output :: "tensor \<Rightarrow> bool" where
  "raw_linear_output t =
     (case dropWhile reshaping (ops t) of Linear_op # _ \<Rightarrow> True | _ \<Rightarrow> False)"

text \<open>
  The sum, in the order of the loop, of the first \<open>n\<close> values that a collaborator
  returns in a phase of an epoch.
\<close>

definition accumulated :: "(phase \<Rightarrow> nat \<Rightarrow> nat \<Rightarrow> fval) \<Rightarrow> phase \<Rightarrow> nat \<Rightarrow> nat \<Rightarrow> fval" where
  "accumulated f ph ep n = foldl fadd (Fin 0) (map (f ph ep) [0..<n])"

definition n_train :: "config \<Rightarrow> nat" where
  "n_train c = length (batches (train_loader c))"

definition n_val :: "config \<Rightarrow> nat" where
  "n_val c = length (batches (val_loader c))"

text \<open>
  The forward passes and the scheduler steps of a run, in order, without the other
  events and without the arguments of the forward passes.
\<close>

datatype mark = Fwd phase nat nat | Sched num

fun mark_of :: "event \<Rightarrow> mark list" where
  "mark_of (Forward ph ep i a) = [Fwd ph ep i]"
| "mark_of (Scheduler_step v) = [Sched v]"
| "mark_of _ = []"

definition marks :: "event list \<Rightarrow> mark list" where
  "marks evs = concat (map mark_of evs)"

text \<open>
  The history entries of an epoch as the specification words them: the accumulated
  training loss and accuracy divided by the last zero-based index of the training loop,
  the accumulated validation loss and accuracy divided by the number of validation
  batches.
\<close>

definition spec_train_loss :: "config \<Rightarrow> nat \<Rightarrow> num" where
  "spec_train_loss c ep =
     Scalar_tensor (fdiv_int (accumulated (criterion c) Training ep (n_train c)) (int (n_train c - 1)))"

definition spec_train_accuracy :: "config \<Rightarrow> nat \<Rightarrow> num" where
  "spec_train_accuracy c ep =
     Scalar_tensor (fdiv_int (accumulated (accuracy c) Training ep (n_train c)) (int (n_train c - 1)))"

definition spec_val_loss :: "config \<Rightarrow> nat \<Rightarrow> num" where
  "spec_val_loss c ep =
     PyFloat (fdiv_int (accumulated (criterion c) Validation ep (n_val c)) (int (n_val c)))"

definition spec_val_accuracy :: "config \<Rightarrow> nat \<Rightarrow> num" where
  "spec_val_accuracy c ep =
     Scalar_tensor (fdiv_int (accumulated (accuracy c) Validation ep (n_val c)) (int (n_val c)))"

text \<open>
  The marks of one epoch as the specification orders them: the forward passes of the
  training phase, then one scheduler step with the accumulated training loss when a
  scheduler is configured, then the forward passes of the validation phase.
\<close>

definition spec_epoch_marks :: "config \<Rightarrow> nat \<Rightarrow> mark list" where
  "spec_epoch_marks c ep =
     map (Fwd Training ep) [0..<n_train c] @
     (if scheduler c \<noteq> None
      then [Sched (Scalar_tensor (accumulated (criterion c) Training ep (n_train c)))] else []) @
     map (Fwd Validation ep) [0..<n_val c]"

text \<open>The epochs in which the line \<^verbatim>\<open>Early stopping\<close> is printed and the loop left.\<close>

fun stop_of :: "event \<Rightarrow> nat list" where
  "stop_of (Print_early_stopping ep) = [ep]"
| "stop_of _ = []"

definition stops :: "event list \<Rightarrow> nat list" where
  "stops evs = concat (map stop_of evs)"

text \<open>The local variables other than the hidden states, beside the recorded events.\<close>

definition core ::
    "state \<Rightarrow> (num list \<times> num list \<times> num list \<times> num list) \<times> (num \<times> num \<times> nat option) \<times>
             (nat \<times> num \<times> num) \<times> num list" where
  "core s =
     ((hist_loss s, hist_accuracy s, val_hist_loss s, val_hist_accuracy s),
      (running_loss s, running_accuracy s, it s),
      (n_batch_validation s, loss_validation s, accuracy_validation s),
      observed s)"

text \<open>The state in which a run ends, whether it returns or raises.\<close>

definition final_state :: "state result \<Rightarrow> state" where
  "final_state r = (case r of Inl (e, s) \<Rightarrow> s | Inr s \<Rightarrow> s)"

text \<open>
  Where the three tensors of an iteration live. With the \<^verbatim>\<open>gpu\<close> flag all three are
  on the device of the run. Without it the labels are on the CPU, the sequence is a
  tensor as the loader yielded it, and the mask is one too or the placeholder
  \<^verbatim>\<open>torch.ones(1)\<close>.
\<close>

definition loader_tensors :: "config \<Rightarrow> tensor list" where
  "loader_tensors c = concat (batches (train_loader c)) @ concat (batches (val_loader c))"

fun tensors_placed :: "config \<Rightarrow> event \<Rightarrow> bool" where
  "tensors_placed c (Tensors_ready ph ep i seq attn_masks labels) =
     (if gpu c
      then dev seq = device_of c \<and> dev attn_masks = device_of c \<and> dev labels = device_of c
      else dev labels = Cpu \<and> seq \<in> set (loader_tensors c) \<and>
           attn_masks \<in> set (torch_ones_1 # loader_tensors c))"
| "tensors_placed c _ = True"

text \<open>A later state of a run: more events, each iteration with its tensors placed so.\<close>

definition extends :: "config \<Rightarrow> state \<Rightarrow> state \<Rightarrow> bool" where
  "extends c s s' = (\<exists>es. events s' = events s @ es \<and> list_all (tensors_placed c) es)"

section \<open>Example inputs\<close>

text \<open>A tensor as a loader yields it: on the CPU, with the given shape.\<close>

definition loaded :: "nat list \<Rightarrow> tensor" where
  "loaded sh = \<lparr>shape = sh, dev = Cpu, ops = []\<rparr>"

definition example_config :: config where
  "example_config =
     \<lparr>model = RNN_model (RNN_init 10 5 4 3 2), model_type = ''rnn'',
      activate_early_stopping = True, scheduler = Some Scheduler,
      train_loader =
        \<lparr>batch_size = 2,
         batches = [[loaded [2, 7], loaded [2]], [loaded [2, 7], loaded [2]]]\<rparr>,
      val_loader = \<lparr>batch_size = 2, batches = [[loaded [2, 7], loaded [2]]]\<rparr>,
      n_epochs = 3, gpu = False, print_every = 1, print_validation_every = 1,
      earl_stopping_patience = 3, cuda_is_available = False,
      criterion = (\<lambda>ph ep i. Fin (1 / (1 + of_nat ep + of_nat i))),
      accuracy = (\<lambda>ph ep i. Fin (1 / 2)),
      early_stop = (\<lambda>patience vs. 2 \<le> length vs)\<rparr>"

text \<open>The same run without early stopping.\<close>

definition example_full_run :: config where
  "example_full_run = example_config\<lparr>activate_early_stopping := False\<rparr>"

text \<open>A model type that the loop does not know, with no epoch and with no training batch.\<close>

definition unsupported_config :: config where
  "unsupported_config = example_config\<lparr>model_type := ''gru''\<rparr>"

definition unsupported_no_epochs :: config where
  "unsupported_no_epochs = example_config\<lparr>model_type := ''gru'', n_epochs := 0\<rparr>"

definition unsupported_empty_loader :: config where
  "unsupported_empty_loader =
     example_config\<lparr>model_type := ''gru'', train_loader := \<lparr>batch_size = 2, batches = []\<rparr>\<rparr>"

text \<open>
  Three examples in batches of two: the training loader yields a batch of two and a
  final batch of one.
\<close>

definition short_final_batch :: config where
  "short_final_batch =
     example_config\<lparr>train_loader :=
       \<lparr>batch_size = 2,
        batches = [[loaded [2, 7], loaded [2]], [loaded [1, 7], loaded [1]]]\<rparr>\<rparr>"

text \<open>A training loader that yields one batch, and one that yields none.\<close>

definition one_batch :: config where
  "one_batch =
     example_config\<lparr>train_loader := \<lparr>batch_size = 2, batches = [[loaded [2, 7], loaded [2]]]\<rparr>\<rparr>"

definition no_batch :: config where
  "no_batch = example_config\<lparr>train_loader := \<lparr>batch_size = 2, batches = []\<rparr>\<rparr>"



definition example_rnn :: rnn where
  "example_rnn = RNN_init 10 5 4 3 2"

text \<open>
  A stand-in for a pretrained encoder with eight features per token: it answers a batch
  of \<open>B\<close> sequences of \<open>L\<close> tokens and a mask of the same shape.
\<close>

definition example_encoder :: encoder where
  "example_encoder seq attn_masks =
     (case shape seq of
        [B, L] \<Rightarrow>
          if 0 < L \<and> shape attn_masks = [B, L]
          then Inr (mk Data_op [B, L, 8] seq, mk Data_op [B, 8] seq, [])
          else Inl TensorError
      | _ \<Rightarrow> Inl TensorError)"

section \<open>Properties of the model classes\<close>

lemma shape_mk [simp]: "shape (mk f sh x) = sh"
  by (simp add: mk_def)

lemma ops_mk [simp]: "ops (mk f sh x) = f # ops x"
  by (simp add: mk_def)

lemma dev_mk [simp]: "dev (mk f sh x) = dev x"
  by (simp add: mk_def)

lemma lstm_call_Inr:
  assumes "lstm_call (LSTM i hs nl) x (h0, c0) = Inr (out, (h1, c1))"
  shows "(\<exists>B L. shape x = [B, L, i] \<and> 0 < L \<and> shape h0 = [nl, B, hs] \<and> shape c0 = [nl, B, hs] \<and>
                 shape out = [B, L, hs] \<and> shape h1 = [nl, B, hs] \<and> shape c1 = [nl, B, hs])
       \<or> (\<exists>L. shape x = [L, i] \<and> shape out = [L, hs])"
  using assms by (auto split: list.splits if_splits)

lemma lstm_call_batched:
  assumes "shape x = [B, L, i]" "0 < L" "shape h0 = [nl, B, hs]" "shape c0 = [nl, B, hs]"
  shows "lstm_call (LSTM i hs nl) x (h0, c0) =
           Inr (mk LSTM_op [B, L, hs] x, (mk LSTM_op [nl, B, hs] h0, mk LSTM_op [nl, B, hs] c0))"
  using assms by simp

declare lstm_call.simps [simp del]

lemma select_dim1_Inr:
  assumes "select_dim1 k x = Inr y"
  shows "k \<le> length (shape x) \<and> 2 \<le> length (shape x) \<and> 0 < shape x ! 1 \<and>
         shape y = hd (shape x) # drop 2 (shape x) \<and> ops y = Select_op # ops x"
  using assms by (auto simp: select_dim1_def split: if_splits)

lemma linear_call_Inr:
  assumes "linear_call (Linear i n) x = Inr y"
  shows "shape x \<noteq> [] \<and> last (shape x) = i \<and> shape y = butlast (shape x) @ [n] \<and>
         ops y = Linear_op # ops x"
  using assms by (auto split: if_splits)

declare linear_call.simps [simp del]

lemma view_rows_Inr:
  assumes "view_rows x b = Inr y"
  shows "0 < b \<and> shape y = [b, prod_list (shape x) div b] \<and> ops y = View_op # ops x"
  using assms by (auto simp: view_rows_def split: if_splits)

lemma snoc_eq_three:
  assumes "xs @ [e] = [a, b, c]"
  shows "xs = [a, b]"
  using assms by (metis butlast.simps(2) butlast_snoc list.distinct(1))

text \<open>What a successful call of \<open>RNN.forward\<close> tells about its arguments and results.\<close>

lemma RNN_forward_Inr:
  assumes "RNN_forward (RNN_init v n e hd_dim nl) x hidden = Inr (scores, hidden')"
  shows "\<exists>B L. shape x = [B, L] \<and> 0 < B \<and> 0 < L \<and> shape scores = [B, n] \<and>
               shape (fst hidden) = [nl, B, hd_dim] \<and> shape (snd hidden) = [nl, B, hd_dim] \<and>
               shape (fst hidden') = [nl, B, hd_dim] \<and> shape (snd hidden') = [nl, B, hd_dim] \<and>
               (\<exists>rest. ops scores = View_op # Sigmoid_op # Linear_op # rest)"
proof -
  obtain h0 c0 h1 c1 where hid: "hidden = (h0, c0)" "hidden' = (h1, c1)"
    by (cases hidden, cases hidden') auto
  let ?emb = "embedding_call (Embedding v e) (long x)"
  from assms obtain bs lstm_out last_step out where
    bs: "size_dim x 0 = Inr bs" and
    l: "lstm_call (LSTM e hd_dim nl) ?emb (h0, c0) = Inr (lstm_out, (h1, c1))" and
    s: "select_dim1 3 lstm_out = Inr last_step" and
    f: "linear_call (Linear hd_dim n) (dropout last_step) = Inr out" and
    w: "view_rows (sigmoid out) bs = Inr scores"
    by (auto simp: RNN_forward_def RNN_init_def hid Let_def split: sum.splits prod.splits)
  have emb: "shape ?emb = shape x @ [e]"
    by (simp add: long_def)
  from select_dim1_Inr [OF s] have three: "3 \<le> length (shape lstm_out)" by simp
  from lstm_call_Inr [OF l] three obtain B L where
    x: "shape ?emb = [B, L, e]" and L: "0 < L" and
    h0: "shape h0 = [nl, B, hd_dim]" "shape c0 = [nl, B, hd_dim]" and
    lo: "shape lstm_out = [B, L, hd_dim]" and
    h1: "shape h1 = [nl, B, hd_dim]" "shape c1 = [nl, B, hd_dim]"
    by auto
  from x emb have sx: "shape x = [B, L]"
    by (simp add: snoc_eq_three)
  with bs have bsB: "bs = B" by (simp add: size_dim_def)
  from select_dim1_Inr [OF s] lo have ls: "shape last_step = [B, hd_dim]" by simp
  from linear_call_Inr [OF f] ls
  have o: "shape out = [B, n]" "ops out = Linear_op # ops (dropout last_step)"
    by (simp_all add: dropout_def)
  from view_rows_Inr [OF w] o bsB
  have "0 < B" "shape scores = [B, n]"
    "ops scores = View_op # Sigmoid_op # Linear_op # ops (dropout last_step)"
    by (simp_all add: sigmoid_def)
  with sx L h0 h1 show ?thesis by (auto simp: hid)
qed

text \<open>On a well-formed batch and a state pair of the matching shape the call succeeds.\<close>

lemma RNN_forward_total:
  assumes "shape x = [B, L]" "0 < B" "0 < L"
    "shape (fst hidden) = [nl, B, hd_dim]" "shape (snd hidden) = [nl, B, hd_dim]"
  shows "\<exists>scores hidden'. RNN_forward (RNN_init v n e hd_dim nl) x hidden = Inr (scores, hidden')"
  using assms
  by (cases hidden)
     (simp add: RNN_forward_def RNN_init_def size_dim_def long_def dropout_def sigmoid_def
        select_dim1_def view_rows_def lstm_call_batched linear_call.simps)

lemma Camembert_forward_Inr:
  assumes "CamembertClassifier_forward m seq attn = Inr (logits, ats)"
  shows "\<exists>c p cls_rep. encoder m seq attn = Inr (c, p, ats) \<and> select_dim1 2 c = Inr cls_rep \<and>
           linear_call (cls_layer m) cls_rep = Inr logits"
  using assms
  by (auto simp: CamembertClassifier_forward_def split: sum.splits)

lemma Camembert_forward_shape:
  assumes "enc seq attn = Inr (c, p, ats)" "shape c = [B, L, H]" "0 < L"
  shows "\<exists>logits. CamembertClassifier_forward (CamembertClassifier_init enc H) seq attn =
                    Inr (logits, ats) \<and> shape logits = [B, 5]"
  using assms
  by (auto simp: CamembertClassifier_forward_def CamembertClassifier_init_def select_dim1_def
        linear_call.simps split: sum.splits)

lemma conv2d_call_Inr:
  assumes "conv2d_call (Conv2d ic n (K, E)) x = Inr y"
  shows "length (shape y) = length (shape x) \<and>
         (length (shape x) = 4 \<longrightarrow> hd (shape y) = hd (shape x))"
  using assms by (auto split: list.splits if_splits)

lemma conv2d_call_ndim:
  assumes "conv2d_call (Conv2d ic n (K, E)) x = Inr y"
  shows "length (shape x) \<le> 4"
  using assms by (auto split: list.splits)

declare conv2d_call.simps [simp del]

lemma squeeze_Inr:
  assumes "squeeze x d = Inr y"
  shows "d < length (shape x) \<and> (0 < d \<longrightarrow> hd (shape y) = hd (shape x))"
  using assms by (cases "shape x") (auto simp: squeeze_def split: if_splits)

lemma length4E:
  assumes "length xs = 4"
  obtains a b c d where "xs = [a, b, c, d]"
proof -
  from assms obtain a xs1 where 1: "xs = a # xs1" "length xs1 = 3" by (cases xs) auto
  then obtain b xs2 where 2: "xs1 = b # xs2" "length xs2 = 2" by (cases xs1) auto
  then obtain c xs3 where 3: "xs2 = c # xs3" "length xs3 = 1" by (cases xs2) auto
  then obtain d where "xs3 = [d]" by (cases xs3) auto
  with 1 2 3 that show thesis by simp
qed

lemma conv_branch_Inr:
  assumes "conv_branch x1 (Conv2d ic n (K, E)) = Inr y"
  shows "length (shape x1) = 4 \<and> hd (shape y) = hd (shape x1)"
proof -
  from assms obtain z where z: "conv2d_call (Conv2d ic n (K, E)) x1 = Inr z"
    and q: "squeeze (relu z) 3 = Inr y"
    by (auto simp: conv_branch_def split: sum.splits)
  from squeeze_Inr [OF q] have "3 < length (shape z)" "hd (shape y) = hd (shape z)"
    by (simp_all add: relu_def)
  moreover from conv2d_call_Inr [OF z] have "length (shape z) = length (shape x1)"
    "length (shape x1) = 4 \<longrightarrow> hd (shape z) = hd (shape x1)" by simp_all
  moreover note conv2d_call_ndim [OF z]
  ultimately show ?thesis by auto
qed

lemma pool_branch_Inr:
  assumes "pool_branch i = Inr p"
  shows "\<exists>B n M. shape i = [B, n, M] \<and> shape p = [B, n]"
  using assms
  by (auto simp: pool_branch_def size_dim_def max_pool1d_def squeeze_def
        split: sum.splits if_splits list.splits)

lemma cat1_Inr:
  assumes "cat1 ts = Inr c"
  shows "ts \<noteq> [] \<and>
         shape c = hd (shape (hd ts)) # sum_list (map (\<lambda>u. shape u ! 1) ts) # drop 2 (shape (hd ts))"
  using assms by (auto simp: cat1_def split: list.splits if_splits)

lemma unsqueeze1_Inr:
  assumes "unsqueeze1 x = Inr y"
  shows "shape x \<noteq> [] \<and> shape y = hd (shape x) # 1 # tl (shape x)"
  using assms by (cases "shape x") (auto simp: unsqueeze1_def split: if_splits)

lemma CNN_forward_Inr_linear:
  assumes "CNN_forward m x = Inr l"
  shows "\<exists>c. linear_call (cnn_fc1 m) (dropout c) = Inr l"
  using assms by (auto simp: CNN_forward_def split: sum.splits)

text \<open>What a successful call of \<open>CNN.forward\<close> tells about its argument and result.\<close>

lemma CNN_forward_Inr:
  assumes m: "CNN_init max_features embed_size num_filters filter_sizes = Inr m"
    and f: "CNN_forward m x = Inr l"
  shows "\<exists>B L. shape x = [B, L] \<and> shape l = [B, 5]"
proof -
  from m have emb: "cnn_embedding m = Embedding max_features embed_size"
    and convs: "cnn_convs1 m =
      map (\<lambda>(n, K). Conv2d 1 n (K, embed_size)) (zip num_filters filter_sizes)"
    and fc: "cnn_fc1 m = Linear (last num_filters * length filter_sizes) 5"
    by (auto simp: CNN_init_def split: if_splits)
  from f obtain x1 xs ps c where
    u: "unsqueeze1 (embedding_call (cnn_embedding m) (long x)) = Inr x1" and
    cs: "map_err (conv_branch x1) (cnn_convs1 m) = Inr xs" and
    pl: "map_err pool_branch xs = Inr ps" and
    ct: "cat1 ps = Inr c" and
    li: "linear_call (cnn_fc1 m) (dropout c) = Inr l"
    by (auto simp: CNN_forward_def split: sum.splits)
  from cat1_Inr [OF ct] obtain p ps' where ps: "ps = p # ps'"
    by (cases ps) auto
  with pl obtain y xs' where xs: "xs = y # xs'"
    by (cases xs) auto
  with cs obtain cv cvs where cvs: "cnn_convs1 m = cv # cvs"
    by (cases "cnn_convs1 m") auto
  with convs obtain n K where cv: "cv = Conv2d 1 n (K, embed_size)"
    by (cases "zip num_filters filter_sizes") auto
  from cs xs cvs cv have cb: "conv_branch x1 (Conv2d 1 n (K, embed_size)) = Inr y"
    by (auto split: sum.splits)
  from conv_branch_Inr [OF cb] obtain B C H W where
    x1: "shape x1 = [B, C, H, W]"
    by (auto elim: length4E)
  from unsqueeze1_Inr [OF u] emb
  have "shape x1 = hd (shape x @ [embed_size]) # 1 # tl (shape x @ [embed_size])"
    by (simp add: long_def)
  with x1 have "shape x @ [embed_size] = [B, H, W]"
    by (cases "shape x") auto
  then have sx: "shape x = [B, H]"
    by (rule snoc_eq_three)
  from pl ps xs have "pool_branch y = Inr p"
    by (auto split: sum.splits)
  from pool_branch_Inr [OF this] obtain B' n' M where
    y: "shape y = [B', n', M]" and p: "shape p = [B', n']"
    by auto
  from conv_branch_Inr [OF cb] x1 y have "B' = B"
    by simp
  with cat1_Inr [OF ct] ps p have "\<exists>k. shape c = [B, k]" by simp
  then obtain k where c: "shape c = [B, k]" ..
  from li fc
  have "linear_call (Linear (last num_filters * length filter_sizes) 5) (dropout c) = Inr l"
    by simp
  from linear_call_Inr [OF this] c have "shape l = [B, 5]"
    by (simp add: dropout_def)
  with sx show ?thesis by auto
qed

text \<open>
  A call of \<open>forward\<close> that returns, on a batch whose first dimension is \<open>B\<close>, returns
  scores of shape \<open>(B, number of classes)\<close>: the configured \<open>output_size\<close> for the RNN,
  the five outputs of \<open>fc1\<close> for the CNN and of \<open>cls_layer\<close> for the CamemBERT
  classifier. The encoder of the last one is a collaborator: when it answers a batch of
  \<open>B\<close> sequences of \<open>L\<close> tokens with representations of shape \<open>(B, L, H)\<close>, the call
  returns.
\<close>

lemma forward_scores_shape:
  "(RNN_forward (RNN_init v n e hd_dim nl) x hidden = Inr (scores, hidden') \<longrightarrow>
      (\<exists>B L. shape x = [B, L] \<and> shape scores = [B, n]))
   \<and> (CNN_init max_features embed_size num_filters filter_sizes = Inr m \<and>
      CNN_forward m x = Inr l \<longrightarrow>
      (\<exists>B L. shape x = [B, L] \<and> shape l = [B, 5]))
   \<and> (shape seq = [B', L'] \<and> 0 < L' \<and> enc seq attn = Inr (c, p, ats) \<and>
      shape c = [B', L', H] \<longrightarrow>
      (\<exists>logits. CamembertClassifier_forward (CamembertClassifier_init enc H) seq attn =
                   Inr (logits, ats) \<and> shape logits = [B', 5]))"
proof (intro conjI impI)
  assume "RNN_forward (RNN_init v n e hd_dim nl) x hidden = Inr (scores, hidden')"
  from RNN_forward_Inr [OF this] show "\<exists>B L. shape x = [B, L] \<and> shape scores = [B, n]"
    by blast
next
  assume "CNN_init max_features embed_size num_filters filter_sizes = Inr m \<and>
    CNN_forward m x = Inr l"
  then show "\<exists>B L. shape x = [B, L] \<and> shape l = [B, 5]"
    using CNN_forward_Inr by blast
next
  assume "shape seq = [B', L'] \<and> 0 < L' \<and> enc seq attn = Inr (c, p, ats) \<and>
    shape c = [B', L', H]"
  then show "\<exists>logits. CamembertClassifier_forward (CamembertClassifier_init enc H) seq attn =
      Inr (logits, ats) \<and> shape logits = [B', 5]"
    using Camembert_forward_shape by blast
qed

lemma example_rnn_forward:
  "RNN_forward (RNN_init 10 5 4 3 2) (loaded [2, 7]) (init_hidden example_rnn False 2) =
     Inr (\<lparr>shape = [2, 5], dev = Cpu,
            ops = [View_op, Sigmoid_op, Linear_op, Dropout_op, Select_op, LSTM_op,
                   Embedding_op, Long_op]\<rparr>,
          \<lparr>shape = [2, 2, 3], dev = Cpu, ops = [LSTM_op, Zero_op]\<rparr>,
          \<lparr>shape = [2, 2, 3], dev = Cpu, ops = [LSTM_op, Zero_op]\<rparr>)"
  by code_simp

lemma example_cnn_init:
  "CNN_init 10 4 [3, 3] [2, 3] =
     Inr \<lparr>cnn_embedding = Embedding 10 4,
          cnn_convs1 = [Conv2d 1 3 (2, 4), Conv2d 1 3 (3, 4)],
          cnn_fc1 = Linear 6 5\<rparr>"
  by code_simp

lemma example_cnn_forward:
  "CNN_forward \<lparr>cnn_embedding = Embedding 10 4,
                cnn_convs1 = [Conv2d 1 3 (2, 4), Conv2d 1 3 (3, 4)],
                cnn_fc1 = Linear 6 5\<rparr> (loaded [2, 7]) =
     Inr \<lparr>shape = [2, 5], dev = Cpu,
          ops = [Linear_op, Dropout_op, Cat_op, Squeeze_op, MaxPool1d_op, Squeeze_op,
                 Relu_op, Conv2d_op, Unsqueeze_op, Embedding_op, Long_op]\<rparr>"
  by code_simp

lemma example_encoder_call:
  "example_encoder (loaded [2, 7]) (loaded [2, 7]) =
     Inr (\<lparr>shape = [2, 7, 8], dev = Cpu, ops = [Data_op]\<rparr>,
          \<lparr>shape = [2, 8], dev = Cpu, ops = [Data_op]\<rparr>, [])"
  by code_simp

lemma example_camembert_forward:
  "CamembertClassifier_forward (CamembertClassifier_init example_encoder 8)
     (loaded [2, 7]) (loaded [2, 7]) =
   Inr (\<lparr>shape = [2, 5], dev = Cpu, ops = [Linear_op, Select_op, Data_op]\<rparr>, [])"
  by code_simp

lemma conv_branch_channels:
  assumes "conv_branch x1 (Conv2d ic n (K, E)) = Inr y"
  shows "shape y ! 1 = n"
  using assms
  by (auto simp: conv_branch_def relu_def squeeze_def conv2d_call.simps
      split: sum.splits if_splits list.splits)

lemma pool_branch_channels:
  assumes "pool_branch i = Inr p"
  shows "length (shape p) = 2 \<and> shape p ! 1 = shape i ! 1"
  using assms
  by (auto simp: pool_branch_def size_dim_def max_pool1d_def squeeze_def
        split: sum.splits if_splits list.splits)

lemma map_err_Cons_Inr:
  assumes "map_err f (a # as) = Inr ys"
  shows "\<exists>y ys'. ys = y # ys' \<and> f a = Inr y \<and> map_err f as = Inr ys'"
  using assms by (auto split: sum.splits)

lemma map_err_Nil_Inr: "map_err f [] = Inr ys \<Longrightarrow> ys = []"
  by simp

text \<open>
  A CNN built with filters of two and of three output channels never returns: \<open>fc1\<close>
  is sized for \<open>num_filters[-1] * len(filter_sizes) = 6\<close> features and \<open>forward\<close>
  concatenates \<open>2 + 3 = 5\<close>.
\<close>

lemma cnn_unequal_never_returns:
  "CNN_forward \<lparr>cnn_embedding = Embedding 10 4,
                cnn_convs1 = [Conv2d 1 2 (2, 4), Conv2d 1 3 (3, 4)],
                cnn_fc1 = Linear 6 5\<rparr> x \<noteq> Inr l"
proof
  let ?m = "\<lparr>cnn_embedding = Embedding 10 4,
                cnn_convs1 = [Conv2d 1 2 (2, 4), Conv2d 1 3 (3, 4)],
                cnn_fc1 = Linear 6 5\<rparr>"
  assume f: "CNN_forward ?m x = Inr l"
  then obtain x1 y1 y2 p1 p2 c where
    1: "conv_branch x1 (Conv2d 1 2 (2, 4)) = Inr y1" and
    2: "conv_branch x1 (Conv2d 1 3 (3, 4)) = Inr y2" and
    3: "pool_branch y1 = Inr p1" and
    4: "pool_branch y2 = Inr p2" and
    ct: "cat1 [p1, p2] = Inr c" and
    li: "linear_call (Linear 6 5) (dropout c) = Inr l"
    by (auto simp: CNN_forward_def split: sum.splits)
  from conv_branch_channels [OF 1] conv_branch_channels [OF 2]
    pool_branch_channels [OF 3] pool_branch_channels [OF 4]
  have ch: "length (shape p1) = 2" "shape p1 ! 1 = 2" "shape p2 ! 1 = 3" by simp_all
  from cat1_Inr [OF ct] ch have "shape c = [hd (shape p1), 5]"
    by simp
  with linear_call_Inr [OF li] show False
    by (simp add: dropout_def)
qed

lemma map_err_all_Inr:
  assumes "\<forall>a\<in>set as. \<exists>y. f a = Inr y \<and> P y"
  shows "\<exists>ys. map_err f as = Inr ys \<and> length ys = length as \<and> (\<forall>y\<in>set ys. P y)"
  using assms
proof (induction as)
  case Nil
  then show ?case by simp
next
  case (Cons a as)
  then obtain y ys where "f a = Inr y" "P y" "map_err f as = Inr ys" "length ys = length as"
    "\<forall>y\<in>set ys. P y" by auto
  then show ?case by simp
qed

lemma conv_branch_total:
  assumes "shape x1 = [B, 1, L, E]" "0 < K" "K \<le> L" "0 < E"
  shows "\<exists>y. conv_branch x1 (Conv2d 1 n (K, E)) = Inr y \<and> shape y = [B, n, L - K + 1]"
  using assms
  by (simp add: conv_branch_def conv2d_call.simps relu_def squeeze_def)

lemma pool_branch_total:
  assumes "shape y = [B, n, Suc M]"
  shows "\<exists>p. pool_branch y = Inr p \<and> shape p = [B, n]"
  using assms
  by (simp add: pool_branch_def size_dim_def max_pool1d_def squeeze_def)

lemma sum_channels:
  assumes "\<forall>p\<in>set ps. shape p = [B, n]"
  shows "sum_list (map (\<lambda>u. shape u ! 1) ps) = n * length ps"
  using assms by (induction ps) simp_all

lemma cat1_total:
  assumes "ps \<noteq> []" "\<forall>p\<in>set ps. shape p = [B, n]"
  shows "\<exists>c. cat1 ps = Inr c \<and> shape c = [B, n * length ps]"
proof -
  from assms obtain p ps' where ps: "ps = p # ps'" by (cases ps) auto
  with assms have p: "shape p = [B, n]" by simp
  from assms(2) have "\<forall>u\<in>set ps. length (shape u) = length (shape p) \<and>
      hd (shape u) = hd (shape p) \<and> drop 2 (shape u) = drop 2 (shape p)"
    by (simp add: p)
  with ps p sum_channels [OF assms(2)] show ?thesis
    by (simp add: cat1_def)
qed

text \<open>
  On a batch of sequences at least as long as every filter, a CNN whose filters all
  have the same number of output channels returns its five scores per example.
\<close>

lemma CNN_forward_total:
  assumes m: "CNN_init max_features embed_size num_filters filter_sizes = Inr m"
    and x: "shape x = [B, L]"
    and e: "0 < embed_size"
    and fs: "filter_sizes \<noteq> []" "length num_filters = length filter_sizes"
    and u: "\<forall>n\<in>set num_filters. n = last num_filters"
    and k: "\<forall>K\<in>set filter_sizes. 0 < K \<and> K \<le> L"
  shows "\<exists>l. CNN_forward m x = Inr l \<and> shape l = [B, 5]"
proof -
  let ?N = "last num_filters"
  from m have emb: "cnn_embedding m = Embedding max_features embed_size"
    and convs: "cnn_convs1 m =
      map (\<lambda>(n, K). Conv2d 1 n (K, embed_size)) (zip num_filters filter_sizes)"
    and fc: "cnn_fc1 m = Linear (?N * length filter_sizes) 5"
    by (auto simp: CNN_init_def split: if_splits)
  let ?x1 = "mk Unsqueeze_op [B, 1, L, embed_size] (embedding_call (cnn_embedding m) (long x))"
  from x emb have x1: "unsqueeze1 (embedding_call (cnn_embedding m) (long x)) = Inr ?x1"
    by (simp add: unsqueeze1_def long_def)
  have "\<forall>cv\<in>set (cnn_convs1 m). \<exists>y. conv_branch ?x1 cv = Inr y \<and>
      (\<exists>M. shape y = [B, ?N, Suc M])"
  proof
    fix cv assume "cv \<in> set (cnn_convs1 m)"
    with convs obtain n K where cv: "cv = Conv2d 1 n (K, embed_size)"
      "(n, K) \<in> set (zip num_filters filter_sizes)" by auto
    then have "n \<in> set num_filters" "K \<in> set filter_sizes"
      by (auto dest: set_zip_leftD set_zip_rightD)
    with u k have "n = ?N" "0 < K" "K \<le> L" by auto
    with conv_branch_total [of ?x1 B L embed_size K n] e cv
    show "\<exists>y. conv_branch ?x1 cv = Inr y \<and> (\<exists>M. shape y = [B, ?N, Suc M])"
      by auto
  qed
  from map_err_all_Inr [OF this] obtain xs where
    xs: "map_err (conv_branch ?x1) (cnn_convs1 m) = Inr xs"
    "length xs = length (cnn_convs1 m)" "\<forall>y\<in>set xs. \<exists>M. shape y = [B, ?N, Suc M]"
    by blast
  from xs(3) have "\<forall>y\<in>set xs. \<exists>p. pool_branch y = Inr p \<and> shape p = [B, ?N]"
    by (auto dest: pool_branch_total)
  from map_err_all_Inr [OF this] obtain ps where
    ps: "map_err pool_branch xs = Inr ps" "length ps = length xs"
    "\<forall>p\<in>set ps. shape p = [B, ?N]"
    by blast
  from ps(2) xs(2) convs fs have len: "length ps = length filter_sizes"
    by simp
  with fs have "ps \<noteq> []" by auto
  from cat1_total [OF this ps(3)] len obtain c where
    c: "cat1 ps = Inr c" "shape c = [B, ?N * length filter_sizes]" by auto
  then have "linear_call (cnn_fc1 m) (dropout c) =
      Inr (mk Linear_op [B, 5] (dropout c))"
    by (simp add: fc linear_call.simps dropout_def)
  with x1 xs(1) ps(1) c(1) show ?thesis
    by (simp add: CNN_forward_def)
qed

text \<open>
  Claim C6 does not hold of the code. For a CNN with filters of two and of three output
  channels, \<open>forward\<close> on a batch of two sequences of seven tokens, longer than both
  filters, yields no scores: the final linear layer rejects the five concatenated
  features, because \<open>__init__\<close> sized it for six. Where all filters have the same number
  of output channels the call returns scores of shape \<open>(B, 5)\<close>, as the RNN and the
  CamemBERT classifier do on their well-formed batches.
\<close>

theorem cnn_unequal_filters_fail:
  "map_sum id (\<lambda>m. CNN_forward m (loaded [2, 7])) (CNN_init 10 4 [2, 3] [2, 3]) =
     Inr (Inl TensorError)"
  by code_simp

text \<open>
  Claim C5, as the code has it. \<open>CNN.forward\<close> and \<open>CamembertClassifier.forward\<close> return
  the output of their final linear layer with nothing applied to it. \<open>RNN.forward\<close>
  applies the sigmoid to the output of its final linear layer, and reshapes the result,
  before returning it: its scores are not the raw output of the layer.
\<close>

theorem forward_raw_scores:
  "(CNN_forward m x = Inr l \<longrightarrow> raw_linear_output l)
   \<and> (CamembertClassifier_forward b seq attn = Inr (logits, ats) \<longrightarrow> raw_linear_output logits)
   \<and> (RNN_forward r x hidden = Inr (out, hidden') \<longrightarrow>
        (\<exists>rest. ops out = View_op # Sigmoid_op # Linear_op # rest) \<and> \<not> raw_linear_output out)"
proof (intro conjI impI)
  assume "CNN_forward m x = Inr l"
  from CNN_forward_Inr_linear [OF this] obtain c where
    "linear_call (cnn_fc1 m) (dropout c) = Inr l" ..
  then show "raw_linear_output l"
    by (cases "cnn_fc1 m") (auto simp: raw_linear_output_def reshaping_def dest: linear_call_Inr)
next
  assume "CamembertClassifier_forward b seq attn = Inr (logits, ats)"
  from Camembert_forward_Inr [OF this] obtain cls_rep where
    "linear_call (cls_layer b) cls_rep = Inr logits" by blast
  then show "raw_linear_output logits"
    by (cases "cls_layer b") (auto simp: raw_linear_output_def reshaping_def dest: linear_call_Inr)
next
  assume a: "RNN_forward r x hidden = Inr (out, hidden')"
  then obtain bs last_step y where
    f: "linear_call (rnn_fc r) (dropout last_step) = Inr y" and
    w: "view_rows (sigmoid y) bs = Inr out"
    by (auto simp: RNN_forward_def Let_def split: sum.splits prod.splits)
  from f have "ops y = Linear_op # ops (dropout last_step)"
    by (cases "rnn_fc r") (auto dest: linear_call_Inr)
  with view_rows_Inr [OF w]
  have o: "ops out = View_op # Sigmoid_op # Linear_op # ops (dropout last_step)"
    by (simp add: sigmoid_def)
  then show "\<exists>rest. ops out = View_op # Sigmoid_op # Linear_op # rest" by blast
  from o show "\<not> raw_linear_output out"
    by (simp add: raw_linear_output_def reshaping_def)
qed

theorem forward_raw_scores_witness:
  "raw_linear_output \<lparr>shape = [2, 5], dev = Cpu,
      ops = [Linear_op, Dropout_op, Cat_op, Squeeze_op, MaxPool1d_op, Squeeze_op,
             Relu_op, Conv2d_op, Unsqueeze_op, Embedding_op, Long_op]\<rparr>
   \<and> (\<exists>logits ats.
        CamembertClassifier_forward (CamembertClassifier_init example_encoder 8)
          (loaded [2, 7]) (loaded [2, 7]) = Inr (logits, ats) \<and> raw_linear_output logits)
   \<and> \<not> raw_linear_output \<lparr>shape = [2, 5], dev = Cpu,
        ops = [View_op, Sigmoid_op, Linear_op, Dropout_op, Select_op, LSTM_op,
               Embedding_op, Long_op]\<rparr>"
proof (intro conjI)
  from forward_raw_scores [THEN conjunct1, rule_format, OF example_cnn_forward]
  show "raw_linear_output \<lparr>shape = [2, 5], dev = Cpu,
      ops = [Linear_op, Dropout_op, Cat_op, Squeeze_op, MaxPool1d_op, Squeeze_op,
             Relu_op, Conv2d_op, Unsqueeze_op, Embedding_op, Long_op]\<rparr>" .
  from forward_raw_scores [THEN conjunct2, THEN conjunct1, rule_format,
      OF example_camembert_forward] example_camembert_forward
  show "\<exists>logits ats.
      CamembertClassifier_forward (CamembertClassifier_init example_encoder 8)
        (loaded [2, 7]) (loaded [2, 7]) = Inr (logits, ats) \<and> raw_linear_output logits"
    by blast
  from forward_raw_scores [THEN conjunct2, THEN conjunct2, rule_format, OF example_rnn_forward]
  show "\<not> raw_linear_output \<lparr>shape = [2, 5], dev = Cpu,
        ops = [View_op, Sigmoid_op, Linear_op, Dropout_op, Select_op, LSTM_op,
               Embedding_op, Long_op]\<rparr>" by simp
qed

text \<open>
  The claim as the specification states it fails for the RNN: on a batch of two
  sequences of seven tokens its forward returns, and what it returns is not the raw
  output of the linear layer.
\<close>

theorem rnn_scores_not_raw:
  "map_sum id (raw_linear_output \<circ> fst)
     (RNN_forward (RNN_init 10 5 4 3 2) (loaded [2, 7]) (init_hidden example_rnn False 2)) =
   Inr False"
  by code_simp

section \<open>Properties of the training loop\<close>

subsection \<open>What each step does when it returns\<close>

lemma marks_simps [simp]:
  "marks [] = []" "marks (e # es) = mark_of e @ marks es" "marks (xs @ ys) = marks xs @ marks ys"
  by (simp_all add: marks_def)

lemma stops_simps [simp]:
  "stops [] = []" "stops (e # es) = stop_of e @ stops es" "stops (xs @ ys) = stops xs @ stops ys"
  by (simp_all add: stops_def)

lemma core_emit [simp]: "core (emit es s) = core s"
  by (simp add: core_def emit_def)

lemma events_emit [simp]: "events (emit es s) = events s @ es"
  by (simp add: emit_def)

lemma core_set_hidden [simp]: "core (set_hidden ph v s) = core s"
  by (simp add: core_def set_hidden_def split: phase.splits)

lemma events_set_hidden [simp]: "events (set_hidden ph v s) = events s"
  by (simp add: set_hidden_def split: phase.splits)

lemma prepare_Inr:
  assumes "prepare c ph ep i data s = Inr (seq, attn, labels, s')"
  shows "core s' = core s \<and> marks (events s') = marks (events s) \<and> stops (events s') = stops (events s)"
  using assms
  by (auto simp: prepare_def split: sum.splits prod.splits phase.splits)

lemma invoke_Inr:
  assumes "invoke c ph ep i a s = Inr (out, hid, s')"
  shows "s' = emit [Forward ph ep i a] s"
  using assms by (auto simp: invoke_def Let_def split: sum.splits)

lemma forward_dispatch_Inr:
  assumes "forward_dispatch c ph ep i seq attn s = Inr (out, s')"
  shows "core s' = core s \<and> marks (events s') = marks (events s) @ [Fwd ph ep i] \<and> stops (events s') = stops (events s)"
  using assms
  by (auto simp: forward_dispatch_def Let_def split: if_splits option.splits sum.splits dest!: invoke_Inr)

lemma train_iteration_Inr:
  assumes "train_iteration c ep (i, data) s = Inr s'"
  shows "hist_loss s' = hist_loss s" "hist_accuracy s' = hist_accuracy s"
    "val_hist_loss s' = val_hist_loss s" "val_hist_accuracy s' = val_hist_accuracy s"
    "observed s' = observed s"
    "running_loss s' = py_add (running_loss s) (Scalar_tensor (criterion c Training ep i))"
    "running_accuracy s' = py_add (running_accuracy s) (Scalar_tensor (accuracy c Training ep i))"
    "it s' = Some i"
    "marks (events s') = marks (events s) @ [Fwd Training ep i]"
    "stops (events s') = stops (events s)"
proof -
  from assms obtain seq attn labels s1 out s2 acc where
    p: "prepare c Training ep i data (s\<lparr>it := Some i\<rparr>) = Inr (seq, attn, labels, s1)" and
    f: "forward_dispatch c Training ep i seq attn s1 = Inr (out, s2)" and
    a: "accuracy_of c Training ep i out labels = Inr acc" and
    r: "s' = (emit [Criterion Training ep i (squeeze_last out) labels, Backward, Optimizer_step]
                 (s2\<lparr>running_loss := py_add (running_loss s2) (Scalar_tensor (criterion c Training ep i))\<rparr>))
               \<lparr>running_accuracy := py_add (running_accuracy s2) acc\<rparr> \<or>
           s' = emit [Print_iteration (int i + 1) (int ep + 1)] ((emit [Criterion Training ep i (squeeze_last out) labels, Backward, Optimizer_step]
                 (s2\<lparr>running_loss := py_add (running_loss s2) (Scalar_tensor (criterion c Training ep i))\<rparr>))
               \<lparr>running_accuracy := py_add (running_accuracy s2) acc\<rparr>)"
    by (auto simp: train_iteration_def Let_def emit_def split: sum.splits prod.splits if_splits)
  from a have acc: "acc = Scalar_tensor (accuracy c Training ep i)"
    by (auto simp: accuracy_of_def split: if_splits sum.splits)
  from prepare_Inr [OF p] forward_dispatch_Inr [OF f]
  have c: "core s2 = core (s\<lparr>it := Some i\<rparr>)"
    and m: "marks (events s2) = marks (events s) @ [Fwd Training ep i]"
    and st: "stops (events s2) = stops (events s)" by simp_all
  from c r acc show "hist_loss s' = hist_loss s" "hist_accuracy s' = hist_accuracy s"
    "val_hist_loss s' = val_hist_loss s" "val_hist_accuracy s' = val_hist_accuracy s"
    "observed s' = observed s"
    "running_loss s' = py_add (running_loss s) (Scalar_tensor (criterion c Training ep i))"
    "running_accuracy s' = py_add (running_accuracy s) (Scalar_tensor (accuracy c Training ep i))"
    "it s' = Some i"
    by (auto simp: core_def emit_def)
  from m st r show "marks (events s') = marks (events s) @ [Fwd Training ep i]"
    "stops (events s') = stops (events s)"
    by (auto simp: emit_def)
qed


lemma val_iteration_Inr:
  assumes "val_iteration c ep (i, data) s = Inr s'"
  shows "hist_loss s' = hist_loss s" "hist_accuracy s' = hist_accuracy s"
    "val_hist_loss s' = val_hist_loss s" "val_hist_accuracy s' = val_hist_accuracy s"
    "observed s' = observed s"
    "n_batch_validation s' = Suc (n_batch_validation s)"
    "loss_validation s' = py_add (loss_validation s) (PyFloat (criterion c Validation ep i))"
    "accuracy_validation s' =
       py_add (accuracy_validation s) (Scalar_tensor (accuracy c Validation ep i))"
    "it s' = Some i"
    "marks (events s') = marks (events s) @ [Fwd Validation ep i]"
    "stops (events s') = stops (events s)"
proof -
  from assms obtain seq attn labels s1 out s2 acc where
    p: "prepare c Validation ep i data (s\<lparr>it := Some i\<rparr>) = Inr (seq, attn, labels, s1)" and
    f: "forward_dispatch c Validation ep i seq attn s1 = Inr (out, s2)" and
    a: "accuracy_of c Validation ep i out labels = Inr acc" and
    r: "s' = (emit [Criterion Validation ep i (squeeze_last out) labels]
                 (s2\<lparr>n_batch_validation := n_batch_validation s2 + 1\<rparr>))
               \<lparr>loss_validation := py_add (loss_validation s2) (PyFloat (criterion c Validation ep i)),
                accuracy_validation := py_add (accuracy_validation s2) acc\<rparr>"
    by (auto simp: val_iteration_def Let_def emit_def split: sum.splits prod.splits)
  from a have acc: "acc = Scalar_tensor (accuracy c Validation ep i)"
    by (auto simp: accuracy_of_def split: if_splits sum.splits)
  from prepare_Inr [OF p] forward_dispatch_Inr [OF f]
  have c: "core s2 = core (s\<lparr>it := Some i\<rparr>)"
    and m: "marks (events s2) = marks (events s) @ [Fwd Validation ep i]"
    and st: "stops (events s2) = stops (events s)" by simp_all
  from c r acc show "hist_loss s' = hist_loss s" "hist_accuracy s' = hist_accuracy s"
    "val_hist_loss s' = val_hist_loss s" "val_hist_accuracy s' = val_hist_accuracy s"
    "observed s' = observed s"
    "n_batch_validation s' = Suc (n_batch_validation s)"
    "loss_validation s' = py_add (loss_validation s) (PyFloat (criterion c Validation ep i))"
    "accuracy_validation s' =
       py_add (accuracy_validation s) (Scalar_tensor (accuracy c Validation ep i))"
    "it s' = Some i"
    by (auto simp: core_def emit_def)
  from m st r show "marks (events s') = marks (events s) @ [Fwd Validation ep i]"
    "stops (events s') = stops (events s)"
    by (auto simp: emit_def)
qed

lemma train_loop_Inr:
  assumes "for_each (train_iteration c ep) (enumerate k ds) s = Inr s'"
  shows "hist_loss s' = hist_loss s \<and> hist_accuracy s' = hist_accuracy s \<and>
    val_hist_loss s' = val_hist_loss s \<and> val_hist_accuracy s' = val_hist_accuracy s \<and>
    observed s' = observed s \<and>
    running_loss s' = foldl py_add (running_loss s)
       (map (\<lambda>i. Scalar_tensor (criterion c Training ep i)) [k..<k + length ds]) \<and>
    running_accuracy s' = foldl py_add (running_accuracy s)
       (map (\<lambda>i. Scalar_tensor (accuracy c Training ep i)) [k..<k + length ds]) \<and>
    it s' = (if ds = [] then it s else Some (k + length ds - 1)) \<and>
    marks (events s') = marks (events s) @ map (Fwd Training ep) [k..<k + length ds] \<and>
    stops (events s') = stops (events s)"
  using assms
proof (induction ds arbitrary: k s)
  case Nil
  then show ?case by simp
next
  case (Cons d ds)
  from Cons.prems obtain s1 where
    1: "train_iteration c ep (k, d) s = Inr s1" and
    2: "for_each (train_iteration c ep) (enumerate (Suc k) ds) s1 = Inr s'"
    by (auto split: sum.splits)
  note a = train_iteration_Inr [OF 1]
  note b = Cons.IH [OF 2]
  show ?case
    using a b by (simp add: upt_conv_Cons del: upt_Suc)
qed

lemma val_loop_Inr:
  assumes "for_each (val_iteration c ep) (enumerate k ds) s = Inr s'"
  shows "hist_loss s' = hist_loss s \<and> hist_accuracy s' = hist_accuracy s \<and>
    val_hist_loss s' = val_hist_loss s \<and> val_hist_accuracy s' = val_hist_accuracy s \<and>
    observed s' = observed s \<and>
    n_batch_validation s' = n_batch_validation s + length ds \<and>
    loss_validation s' = foldl py_add (loss_validation s)
       (map (\<lambda>i. PyFloat (criterion c Validation ep i)) [k..<k + length ds]) \<and>
    accuracy_validation s' = foldl py_add (accuracy_validation s)
       (map (\<lambda>i. Scalar_tensor (accuracy c Validation ep i)) [k..<k + length ds]) \<and>
    (it s \<noteq> None \<longrightarrow> it s' \<noteq> None) \<and>
    marks (events s') = marks (events s) @ map (Fwd Validation ep) [k..<k + length ds] \<and>
    stops (events s') = stops (events s)"
  using assms
proof (induction ds arbitrary: k s)
  case Nil
  then show ?case by simp
next
  case (Cons d ds)
  from Cons.prems obtain s1 where
    1: "val_iteration c ep (k, d) s = Inr s1" and
    2: "for_each (val_iteration c ep) (enumerate (Suc k) ds) s1 = Inr s'"
    by (auto split: sum.splits)
  note a = val_iteration_Inr [OF 1]
  note b = Cons.IH [OF 2]
  show ?case
    using a b by (simp add: upt_conv_Cons del: upt_Suc)
qed

lemma fadd_zero [simp]: "fadd (Fin 0) x = x"
  by (cases x) simp_all

lemma foldl_tensor:
  "foldl py_add (Scalar_tensor a) (map (\<lambda>i. Scalar_tensor (f i)) xs) =
     Scalar_tensor (foldl fadd a (map f xs))"
  by (induction xs arbitrary: a) simp_all

lemma foldl_float:
  "foldl py_add (PyFloat a) (map (\<lambda>i. PyFloat (f i)) xs) = PyFloat (foldl fadd a (map f xs))"
  by (induction xs arbitrary: a) simp_all

lemma running_sum_tensor:
  assumes "0 < n"
  shows "foldl py_add (PyInt 0) (map (\<lambda>i. Scalar_tensor (f ph ep i)) [0..<n]) =
           Scalar_tensor (accumulated f ph ep n)"
proof -
  from assms have "[0..<n] = 0 # [1..<n]" by (simp add: upt_conv_Cons)
  then show ?thesis
    by (simp add: accumulated_def foldl_tensor)
qed

lemma running_sum_float:
  assumes "0 < n"
  shows "foldl py_add (PyInt 0) (map (\<lambda>i. PyFloat (f ph ep i)) [0..<n]) =
           PyFloat (accumulated f ph ep n)"
proof -
  from assms have "[0..<n] = 0 # [1..<n]" by (simp add: upt_conv_Cons)
  then show ?thesis
    by (simp add: accumulated_def foldl_float)
qed


lemma init_hidden_if_rnn_Inr:
  assumes "init_hidden_if_rnn c ph ld s = Inr s'"
  shows "core s' = core s \<and> events s' = events s"
  using assms
  by (auto simp: init_hidden_if_rnn_def split: if_splits sum.splits)

lemma update_training_history_Inr:
  assumes "update_training_history s = Inr s'" "running_loss s = Scalar_tensor l"
    "running_accuracy s = Scalar_tensor a" "it s = Some i"
  shows "hist_loss s' = hist_loss s @ [Scalar_tensor (fdiv_int l (int i))] \<and>
    hist_accuracy s' = hist_accuracy s @ [Scalar_tensor (fdiv_int a (int i))] \<and>
    val_hist_loss s' = val_hist_loss s \<and> val_hist_accuracy s' = val_hist_accuracy s \<and>
    observed s' = observed s \<and> events s' = events s \<and> it s' = it s"
  using assms
  by (auto simp: update_training_history_def Let_def split: sum.splits)

lemma training_phase_Inr:
  assumes t: "training_phase c ep s = Inr s'" and i: "it s = None \<or> 0 < n_train c"
  shows "0 < n_train c \<and>
    hist_loss s' = hist_loss s @ [spec_train_loss c ep] \<and>
    hist_accuracy s' = hist_accuracy s @ [spec_train_accuracy c ep] \<and>
    val_hist_loss s' = val_hist_loss s \<and> val_hist_accuracy s' = val_hist_accuracy s \<and>
    observed s' = observed s \<and>
    marks (events s') = marks (events s) @ map (Fwd Training ep) [0..<n_train c] @
      (if scheduler c \<noteq> None
       then [Sched (Scalar_tensor (accumulated (criterion c) Training ep (n_train c)))] else []) \<and>
    stops (events s') = stops (events s) \<and> it s' \<noteq> None"
proof -
  let ?s0 = "s\<lparr>running_loss := PyInt 0, running_accuracy := PyInt 0\<rparr>"
  from t obtain s1 s2 where
    1: "init_hidden_if_rnn c Training (train_loader c) ?s0 = Inr s1" and
    2: "for_each (train_iteration c ep) (enumerate 0 (batches (train_loader c))) s1 = Inr s2" and
    3: "update_training_history (scheduler_step c s2) = Inr s'"
    by (auto simp: training_phase_def split: sum.splits)
  note a = init_hidden_if_rnn_Inr [OF 1]
  note b = train_loop_Inr [OF 2, simplified]
  have n: "0 < n_train c"
  proof (rule ccontr)
    assume "\<not> 0 < n_train c"
    then have e: "batches (train_loader c) = []" by (simp add: n_train_def)
    with i have "it s = None" by (simp add: n_train_def)
    with a b e have "it (scheduler_step c s2) = None"
      by (simp add: core_def scheduler_step_def emit_def)
    with 3 show False by (simp add: update_training_history_def)
  qed
  then have ne: "batches (train_loader c) \<noteq> []" by (simp add: n_train_def)
  from a b n have rl: "running_loss s2 = Scalar_tensor (accumulated (criterion c) Training ep (n_train c))"
    and ra: "running_accuracy s2 = Scalar_tensor (accumulated (accuracy c) Training ep (n_train c))"
    by (simp_all add: core_def n_train_def running_sum_tensor)
  from b ne have it2: "it s2 = Some (n_train c - 1)" by (simp add: n_train_def)
  have "running_loss (scheduler_step c s2) = running_loss s2"
    "running_accuracy (scheduler_step c s2) = running_accuracy s2"
    "it (scheduler_step c s2) = it s2"
    by (simp_all add: scheduler_step_def emit_def)
  with rl ra it2 update_training_history_Inr [OF 3]
  have u: "hist_loss s' = hist_loss (scheduler_step c s2) @ [spec_train_loss c ep]"
    "hist_accuracy s' = hist_accuracy (scheduler_step c s2) @ [spec_train_accuracy c ep]"
    "val_hist_loss s' = val_hist_loss (scheduler_step c s2)"
    "val_hist_accuracy s' = val_hist_accuracy (scheduler_step c s2)"
    "observed s' = observed (scheduler_step c s2)"
    "events s' = events (scheduler_step c s2)" "it s' = Some (n_train c - 1)"
    by (simp_all add: spec_train_loss_def spec_train_accuracy_def)
  have "marks (events (scheduler_step c s2)) = marks (events s2) @
      (if scheduler c \<noteq> None then [Sched (running_loss s2)] else [])"
    "stops (events (scheduler_step c s2)) = stops (events s2)"
    by (simp_all add: scheduler_step_def)
  with u a b n rl show ?thesis
    by (simp add: core_def scheduler_step_def emit_def n_train_def)
qed

lemma validation_printing_Inr:
  assumes "validation_printing c ep s = Inr s'"
  shows "core s' = core s \<and> marks (events s') = marks (events s) \<and>
         stops (events s') = stops (events s)"
  using assms
  by (auto simp: validation_printing_def split: if_splits sum.splits)

lemma update_validation_history_Inr:
  assumes "update_validation_history s = Inr s'"
  shows "(\<exists>l a. py_truediv (loss_validation s) (int (n_batch_validation s)) = Inr l \<and>
      py_truediv (accuracy_validation s) (int (n_batch_validation s)) = Inr a \<and>
      val_hist_loss s' = val_hist_loss s @ [l] \<and>
      val_hist_accuracy s' = val_hist_accuracy s @ [a]) \<and>
    hist_loss s' = hist_loss s \<and> hist_accuracy s' = hist_accuracy s \<and>
    observed s' = observed s \<and> events s' = events s \<and> it s' = it s \<and>
    loss_validation s' = loss_validation s"
  using assms
  by (auto simp: update_validation_history_def Let_def split: sum.splits)

lemma validation_phase_Inr:
  assumes v: "validation_phase c ep s = Inr s'"
  shows "0 < n_val c \<and>
    val_hist_loss s' = val_hist_loss s @ [spec_val_loss c ep] \<and>
    val_hist_accuracy s' = val_hist_accuracy s @ [spec_val_accuracy c ep] \<and>
    hist_loss s' = hist_loss s \<and> hist_accuracy s' = hist_accuracy s \<and>
    observed s' = observed s \<and>
    marks (events s') = marks (events s) @ map (Fwd Validation ep) [0..<n_val c] \<and>
    stops (events s') = stops (events s) \<and> (it s \<noteq> None \<longrightarrow> it s' \<noteq> None) \<and>
    loss_validation s' = PyFloat (accumulated (criterion c) Validation ep (n_val c))"
proof -
  let ?s0 = "emit [Model_eval] (s\<lparr>n_batch_validation := 0, loss_validation := PyInt 0,
                                   accuracy_validation := PyInt 0\<rparr>)"
  from v obtain s1 s2 s3 where
    1: "init_hidden_if_rnn c Validation (val_loader c) ?s0 = Inr s1" and
    2: "for_each (val_iteration c ep) (enumerate 0 (batches (val_loader c))) s1 = Inr s2" and
    3: "validation_printing c ep s2 = Inr s3" and
    4: "update_validation_history s3 = Inr s'"
    by (auto simp: validation_phase_def split: sum.splits)
  note a = init_hidden_if_rnn_Inr [OF 1]
  note b = val_loop_Inr [OF 2, simplified]
  note p = validation_printing_Inr [OF 3]
  note u = update_validation_history_Inr [OF 4]
  from a b p have nb: "n_batch_validation s3 = n_val c"
    by (simp add: core_def emit_def n_val_def)
  have n: "0 < n_val c"
  proof (rule ccontr)
    assume "\<not> 0 < n_val c"
    then have e: "batches (val_loader c) = []" by (simp add: n_val_def)
    with a b p have "loss_validation s3 = PyInt 0" "n_batch_validation s3 = 0"
      by (simp_all add: core_def emit_def)
    with u show False by simp
  qed
  from a b p n have lv: "loss_validation s3 = PyFloat (accumulated (criterion c) Validation ep (n_val c))"
    and av: "accuracy_validation s3 = Scalar_tensor (accumulated (accuracy c) Validation ep (n_val c))"
    by (simp_all add: core_def emit_def n_val_def running_sum_float running_sum_tensor)
  from u lv av nb n
  have h: "val_hist_loss s' = val_hist_loss s3 @ [spec_val_loss c ep]"
    "val_hist_accuracy s' = val_hist_accuracy s3 @ [spec_val_accuracy c ep]"
    by (auto simp: spec_val_loss_def spec_val_accuracy_def)
  from a b p have "marks (events s3) = marks (events s) @ map (Fwd Validation ep) [0..<n_val c]"
    "stops (events s3) = stops (events s)"
    by (simp_all add: n_val_def)
  with h u a b p n lv show ?thesis
    by (simp add: core_def emit_def)
qed


lemma early_stopping_step_eq:
  assumes "early_stopping_step c ep s = (brk, s')"
  shows "hist_loss s' = hist_loss s \<and> hist_accuracy s' = hist_accuracy s \<and>
    val_hist_loss s' = val_hist_loss s \<and> val_hist_accuracy s' = val_hist_accuracy s \<and>
    it s' = it s \<and> marks (events s') = marks (events s) \<and>
    stops (events s') = stops (events s) @ (if brk then [ep] else [])"
  using assms
  by (auto simp: early_stopping_step_def Let_def emit_def split: if_splits)

lemma epoch_Inr:
  assumes e: "epoch c ep s = Inr (brk, s')" and i: "it s = None \<or> 0 < n_train c"
  shows "0 < n_train c \<and> 0 < n_val c \<and>
    hist_loss s' = hist_loss s @ [spec_train_loss c ep] \<and>
    hist_accuracy s' = hist_accuracy s @ [spec_train_accuracy c ep] \<and>
    val_hist_loss s' = val_hist_loss s @ [spec_val_loss c ep] \<and>
    val_hist_accuracy s' = val_hist_accuracy s @ [spec_val_accuracy c ep] \<and>
    marks (events s') = marks (events s) @ spec_epoch_marks c ep \<and>
    stops (events s') = stops (events s) @ (if brk then [ep] else [])"
proof -
  from e obtain s1 s2 where
    1: "training_phase c ep s = Inr s1" and
    2: "validation_phase c ep s1 = Inr s2" and
    3: "early_stopping_step c ep s2 = (brk, s')"
    by (auto simp: epoch_def split: sum.splits)
  from training_phase_Inr [OF 1 i] validation_phase_Inr [OF 2] early_stopping_step_eq [OF 3]
  show ?thesis
    by (simp add: spec_epoch_marks_def)
qed

lemma for_epochs_Inr:
  assumes "for_epochs c eps s = Inr s'" "it s = None \<or> 0 < n_train c"
  shows "\<exists>n\<le>length eps.
    hist_loss s' = hist_loss s @ map (spec_train_loss c) (take n eps) \<and>
    hist_accuracy s' = hist_accuracy s @ map (spec_train_accuracy c) (take n eps) \<and>
    val_hist_loss s' = val_hist_loss s @ map (spec_val_loss c) (take n eps) \<and>
    val_hist_accuracy s' = val_hist_accuracy s @ map (spec_val_accuracy c) (take n eps) \<and>
    marks (events s') = marks (events s) @ concat (map (spec_epoch_marks c) (take n eps)) \<and>
    (0 < n \<longrightarrow> 0 < n_train c \<and> 0 < n_val c) \<and>
    (n = length eps \<and> stops (events s') = stops (events s) \<or>
     0 < n \<and> stops (events s') = stops (events s) @ [eps ! (n - 1)])"
  using assms
proof (induction eps arbitrary: s)
  case Nil
  then show ?case by simp
next
  case (Cons ep eps)
  from Cons.prems(1) obtain brk s1 where
    1: "epoch c ep s = Inr (brk, s1)" and
    2: "if brk then s' = s1 else for_epochs c eps s1 = Inr s'"
    by (auto split: sum.splits if_splits)
  note a = epoch_Inr [OF 1 Cons.prems(2)]
  show ?case
  proof (cases brk)
    case True
    with 2 a show ?thesis
      by (intro exI [of _ 1]) simp
  next
    case False
    with 2 have "for_epochs c eps s1 = Inr s'" by simp
    from Cons.IH [OF this] a obtain n where n: "n \<le> length eps"
      "hist_loss s' = hist_loss s1 @ map (spec_train_loss c) (take n eps)"
      "hist_accuracy s' = hist_accuracy s1 @ map (spec_train_accuracy c) (take n eps)"
      "val_hist_loss s' = val_hist_loss s1 @ map (spec_val_loss c) (take n eps)"
      "val_hist_accuracy s' = val_hist_accuracy s1 @ map (spec_val_accuracy c) (take n eps)"
      "marks (events s') = marks (events s1) @ concat (map (spec_epoch_marks c) (take n eps))"
      "n = length eps \<and> stops (events s') = stops (events s1) \<or>
       0 < n \<and> stops (events s') = stops (events s1) @ [eps ! (n - 1)]"
      by auto
    with a False show ?thesis
      by (intro exI [of _ "Suc n"]) auto
  qed
qed

lemma train_Inr:
  assumes "train c = Inr s"
  shows "\<exists>n\<le>n_epochs c.
    hist_loss s = map (spec_train_loss c) [0..<n] \<and>
    hist_accuracy s = map (spec_train_accuracy c) [0..<n] \<and>
    val_hist_loss s = map (spec_val_loss c) [0..<n] \<and>
    val_hist_accuracy s = map (spec_val_accuracy c) [0..<n] \<and>
    marks (events s) = concat (map (spec_epoch_marks c) [0..<n]) \<and>
    (0 < n \<longrightarrow> 0 < n_train c \<and> 0 < n_val c) \<and>
    (n = n_epochs c \<and> stops (events s) = [] \<or> 0 < n \<and> stops (events s) = [n - 1])"
proof -
  from assms obtain s0 where
    1: "for_epochs c [0..<n_epochs c] (initial_state c) = Inr s0" and
    2: "s = plot_history s0"
    by (auto simp: train_def split: sum.splits)
  have "it (initial_state c) = None \<or> 0 < n_train c"
    by (simp add: initial_state_def)
  from for_epochs_Inr [OF 1 this] obtain n where n: "n \<le> n_epochs c"
    "hist_loss s0 = map (spec_train_loss c) (take n [0..<n_epochs c])"
    "hist_accuracy s0 = map (spec_train_accuracy c) (take n [0..<n_epochs c])"
    "val_hist_loss s0 = map (spec_val_loss c) (take n [0..<n_epochs c])"
    "val_hist_accuracy s0 = map (spec_val_accuracy c) (take n [0..<n_epochs c])"
    "marks (events s0) = concat (map (spec_epoch_marks c) (take n [0..<n_epochs c]))"
    "0 < n \<longrightarrow> 0 < n_train c \<and> 0 < n_val c"
    "n = n_epochs c \<and> stops (events s0) = [] \<or>
     0 < n \<and> stops (events s0) = [[0..<n_epochs c] ! (n - 1)]"
    by (auto simp: initial_state_def)
  from n(1) have t: "take n [0..<n_epochs c] = [0..<n]"
    by (simp add: take_upt)
  from n(1) have "0 < n \<Longrightarrow> [0..<n_epochs c] ! (n - 1) = n - 1"
    by simp
  with n t 2 show ?thesis
    by (intro exI [of _ n]) (auto simp: plot_history_def emit_def)
qed

subsection \<open>The example run\<close>

lemma example_run_returns: "\<not> isl (train example_config)"
  by code_simp

lemma example_run_summary:
  "map_sum fst (\<lambda>s. (length (hist_loss s), stops (events s))) (train example_config) =
     Inr (2, [1])"
  by code_simp

lemma example_run:
  obtains s where "train example_config = Inr s" "length (hist_loss s) = 2"
    "stops (events s) = [1]"
proof -
  from example_run_returns obtain s where s: "train example_config = Inr s"
    by (cases "train example_config") auto
  with example_run_summary have "length (hist_loss s) = 2" "stops (events s) = [1]"
    by simp_all
  with s that show thesis by blast
qed

lemma example_full_run_returns: "\<not> isl (train example_full_run)"
  by code_simp

lemma example_full_run_summary:
  "map_sum fst (\<lambda>s. (length (hist_loss s), stops (events s))) (train example_full_run) =
     Inr (3, [])"
  by code_simp

lemma example_full_run:
  obtains s where "train example_full_run = Inr s" "length (hist_loss s) = 3"
    "stops (events s) = []"
proof -
  from example_full_run_returns obtain s where s: "train example_full_run = Inr s"
    by (cases "train example_full_run") auto
  with example_full_run_summary have "length (hist_loss s) = 3" "stops (events s) = []"
    by simp_all
  with s that show thesis by blast
qed

text \<open>The histories after the first \<open>k\<close> epochs of a run, and when \<open>train\<close> returns.\<close>

lemma run_histories:
  assumes "for_epochs c [0..<k] (initial_state c) = Inr s \<or> train c = Inr s"
  shows "\<exists>n. hist_loss s = map (spec_train_loss c) [0..<n] \<and>
    hist_accuracy s = map (spec_train_accuracy c) [0..<n] \<and>
    val_hist_loss s = map (spec_val_loss c) [0..<n] \<and>
    val_hist_accuracy s = map (spec_val_accuracy c) [0..<n] \<and>
    (0 < n \<longrightarrow> 0 < n_train c \<and> 0 < n_val c)"
  using assms
proof
  assume a: "for_epochs c [0..<k] (initial_state c) = Inr s"
  have "it (initial_state c) = None \<or> 0 < n_train c"
    by (simp add: initial_state_def)
  from for_epochs_Inr [OF a this] show ?thesis
    by (auto simp: initial_state_def take_upt)
next
  assume "train c = Inr s"
  from train_Inr [OF this] show ?thesis by blast
qed

subsection \<open>The history entries\<close>

text \<open>
  Claim C1. Whenever the first \<open>k\<close> epochs of a run complete, and in particular when
  \<open>train\<close> returns, the training-history entries of an epoch are the accumulated
  running loss and running accuracy of its training loop divided by the last zero-based
  index of that loop, \<open>n_train c - 1\<close>, and its validation-history entries are the
  accumulated validation loss and accuracy divided by the number of validation batches.
\<close>

theorem history_entries:
  assumes "for_epochs c [0..<k] (initial_state c) = Inr s \<or> train c = Inr s"
    and "ep < length (hist_loss s)"
  shows "0 < n_train c \<and> 0 < n_val c \<and>
    hist_loss s ! ep =
      Scalar_tensor (fdiv_int (accumulated (criterion c) Training ep (n_train c)) (int (n_train c - 1))) \<and>
    hist_accuracy s ! ep =
      Scalar_tensor (fdiv_int (accumulated (accuracy c) Training ep (n_train c)) (int (n_train c - 1))) \<and>
    val_hist_loss s ! ep =
      PyFloat (fdiv_int (accumulated (criterion c) Validation ep (n_val c)) (int (n_val c))) \<and>
    val_hist_accuracy s ! ep =
      Scalar_tensor (fdiv_int (accumulated (accuracy c) Validation ep (n_val c)) (int (n_val c)))"
proof -
  from run_histories [OF assms(1)]
  obtain n where n: "hist_loss s = map (spec_train_loss c) [0..<n]"
    "hist_accuracy s = map (spec_train_accuracy c) [0..<n]"
    "val_hist_loss s = map (spec_val_loss c) [0..<n]"
    "val_hist_accuracy s = map (spec_val_accuracy c) [0..<n]"
    "0 < n \<longrightarrow> 0 < n_train c \<and> 0 < n_val c"
    by blast
  from n(1) assms(2) have "ep < n" by simp
  with n show ?thesis
    by (simp add: spec_train_loss_def spec_train_accuracy_def spec_val_loss_def
        spec_val_accuracy_def)
qed

lemma example_entries:
  "Scalar_tensor (fdiv_int (accumulated (criterion example_config) Training 1 (n_train example_config))
     (int (n_train example_config - 1))) = Scalar_tensor (Fin (5 / 6))"
  "Scalar_tensor (fdiv_int (accumulated (accuracy example_config) Training 1 (n_train example_config))
     (int (n_train example_config - 1))) = Scalar_tensor (Fin 1)"
  "PyFloat (fdiv_int (accumulated (criterion example_config) Validation 1 (n_val example_config))
     (int (n_val example_config))) = PyFloat (Fin (1 / 2))"
  "Scalar_tensor (fdiv_int (accumulated (accuracy example_config) Validation 1 (n_val example_config))
     (int (n_val example_config))) = Scalar_tensor (Fin (1 / 2))"
  by code_simp+

theorem history_entries_witness:
  "\<exists>s. train example_config = Inr s \<and> 1 < length (hist_loss s) \<and>
     hist_loss s ! 1 = Scalar_tensor (Fin (5 / 6)) \<and>
     hist_accuracy s ! 1 = Scalar_tensor (Fin 1) \<and>
     val_hist_loss s ! 1 = PyFloat (Fin (1 / 2)) \<and>
     val_hist_accuracy s ! 1 = Scalar_tensor (Fin (1 / 2))"
proof -
  obtain s where s: "train example_config = Inr s" "length (hist_loss s) = 2"
    by (rule example_run)
  then have "for_epochs example_config [0..<0] (initial_state example_config) = Inr s \<or>
      train example_config = Inr s"
    and "1 < length (hist_loss s)"
    by simp_all
  from history_entries [OF this]
  have "hist_loss s ! 1 = Scalar_tensor (Fin (5 / 6)) \<and>
     hist_accuracy s ! 1 = Scalar_tensor (Fin 1) \<and>
     val_hist_loss s ! 1 = PyFloat (Fin (1 / 2)) \<and>
     val_hist_accuracy s ! 1 = Scalar_tensor (Fin (1 / 2))"
    unfolding example_entries by blast
  with s show ?thesis
    by auto
qed

subsection \<open>The length of the histories\<close>

text \<open>
  Claim C4. When \<open>train\<close> returns, the four history lists have at most \<open>n_epochs\<close>
  entries, exactly \<open>n_epochs\<close> when the line \<^verbatim>\<open>Early stopping\<close> was never printed,
  and when it was printed in epoch \<open>k\<close> they have the entries of the epochs \<open>0\<close> to \<open>k\<close>
  and no other.
\<close>

theorem history_length:
  assumes "train c = Inr s"
  shows "length (hist_loss s) \<le> n_epochs c \<and>
    length (hist_accuracy s) = length (hist_loss s) \<and>
    length (val_hist_loss s) = length (hist_loss s) \<and>
    length (val_hist_accuracy s) = length (hist_loss s) \<and>
    (stops (events s) = [] \<longrightarrow> length (hist_loss s) = n_epochs c) \<and>
    (\<forall>k. k \<in> set (stops (events s)) \<longrightarrow> length (hist_loss s) = Suc k)"
proof -
  from train_Inr [OF assms] obtain n where "n \<le> n_epochs c"
    "hist_loss s = map (spec_train_loss c) [0..<n]"
    "hist_accuracy s = map (spec_train_accuracy c) [0..<n]"
    "val_hist_loss s = map (spec_val_loss c) [0..<n]"
    "val_hist_accuracy s = map (spec_val_accuracy c) [0..<n]"
    "n = n_epochs c \<and> stops (events s) = [] \<or> 0 < n \<and> stops (events s) = [n - 1]"
    by blast
  then show ?thesis by auto
qed

theorem history_length_witness:
  "(\<exists>s. train example_config = Inr s \<and> stops (events s) = [1] \<and>
         length (hist_loss s) = 2 \<and> length (val_hist_loss s) = 2 \<and>
         length (hist_loss s) \<le> n_epochs example_config)
   \<and> (\<exists>s. train example_full_run = Inr s \<and> stops (events s) = [] \<and>
         length (hist_loss s) = n_epochs example_full_run \<and>
         length (val_hist_loss s) = n_epochs example_full_run)"
proof
  obtain s where s: "train example_config = Inr s" "stops (events s) = [1]"
    by (rule example_run)
  from history_length [OF s(1)] s show "\<exists>s. train example_config = Inr s \<and>
      stops (events s) = [1] \<and> length (hist_loss s) = 2 \<and> length (val_hist_loss s) = 2 \<and>
      length (hist_loss s) \<le> n_epochs example_config"
    by simp
  obtain t where t: "train example_full_run = Inr t" "stops (events t) = []"
    by (rule example_full_run)
  from history_length [OF t(1)] t show "\<exists>s. train example_full_run = Inr s \<and>
      stops (events s) = [] \<and> length (hist_loss s) = n_epochs example_full_run \<and>
      length (val_hist_loss s) = n_epochs example_full_run"
    by simp
qed

subsection \<open>The scheduler\<close>

text \<open>
  Claim C7. When \<open>train\<close> returns, the forward passes and scheduler steps of the run
  are, epoch after epoch: the forward passes of the training batches, then, when a
  scheduler is configured, exactly one scheduler step whose argument is the accumulated
  running loss of the epoch (the sum of the losses of its batches, not divided), then
  the forward passes of the validation batches. With no scheduler there is no step.
\<close>

theorem scheduler_steps:
  assumes "train c = Inr s"
  shows "marks (events s) =
    concat (map (\<lambda>ep.
        map (Fwd Training ep) [0..<n_train c] @
        (if scheduler c \<noteq> None
         then [Sched (Scalar_tensor (accumulated (criterion c) Training ep (n_train c)))] else []) @
        map (Fwd Validation ep) [0..<n_val c])
      [0..<length (hist_loss s)])"
proof -
  from train_Inr [OF assms] obtain n where
    "hist_loss s = map (spec_train_loss c) [0..<n]"
    "marks (events s) = concat (map (spec_epoch_marks c) [0..<n])"
    by blast
  then show ?thesis
    unfolding spec_epoch_marks_def by simp
qed

lemma example_marks:
  "concat (map (\<lambda>ep.
        map (Fwd Training ep) [0..<n_train example_config] @
        (if scheduler example_config \<noteq> None
         then [Sched (Scalar_tensor
                 (accumulated (criterion example_config) Training ep (n_train example_config)))]
         else []) @
        map (Fwd Validation ep) [0..<n_val example_config])
      [0..<2]) =
   [Fwd Training 0 0, Fwd Training 0 1, Sched (Scalar_tensor (Fin (3 / 2))), Fwd Validation 0 0,
    Fwd Training 1 0, Fwd Training 1 1, Sched (Scalar_tensor (Fin (5 / 6))), Fwd Validation 1 0]"
  by code_simp

theorem scheduler_steps_witness:
  "\<exists>s. train example_config = Inr s \<and>
     marks (events s) =
       [Fwd Training 0 0, Fwd Training 0 1, Sched (Scalar_tensor (Fin (3 / 2))),
        Fwd Validation 0 0,
        Fwd Training 1 0, Fwd Training 1 1, Sched (Scalar_tensor (Fin (5 / 6))),
        Fwd Validation 1 0]"
proof -
  obtain s where s: "train example_config = Inr s" "length (hist_loss s) = 2"
    by (rule example_run)
  from scheduler_steps [OF s(1)] s example_marks show ?thesis
    by simp
qed

subsection \<open>The two histories side by side\<close>

lemma update_training_history_lengths:
  assumes "update_training_history s = Inr s'"
  shows "length (hist_loss s') = Suc (length (hist_loss s)) \<and>
    length (hist_accuracy s') = Suc (length (hist_accuracy s)) \<and>
    val_hist_loss s' = val_hist_loss s \<and> val_hist_accuracy s' = val_hist_accuracy s"
  using assms
  by (auto simp: update_training_history_def Let_def split: option.splits sum.splits)

lemma training_phase_lengths:
  assumes t: "training_phase c ep s = Inr s'"
  shows "length (hist_loss s') = Suc (length (hist_loss s)) \<and>
    length (hist_accuracy s') = Suc (length (hist_accuracy s)) \<and>
    length (val_hist_loss s') = length (val_hist_loss s) \<and>
    length (val_hist_accuracy s') = length (val_hist_accuracy s)"
proof -
  let ?s0 = "s\<lparr>running_loss := PyInt 0, running_accuracy := PyInt 0\<rparr>"
  from t obtain s1 s2 where
    1: "init_hidden_if_rnn c Training (train_loader c) ?s0 = Inr s1" and
    2: "for_each (train_iteration c ep) (enumerate 0 (batches (train_loader c))) s1 = Inr s2" and
    3: "update_training_history (scheduler_step c s2) = Inr s'"
    by (auto simp: training_phase_def split: sum.splits)
  from init_hidden_if_rnn_Inr [OF 1] train_loop_Inr [OF 2] update_training_history_lengths [OF 3]
  show ?thesis
    by (simp add: core_def scheduler_step_def emit_def)
qed

text \<open>
  Claim C10, as the code has it. After the first \<open>k\<close> epochs of a run, that is at the
  start of the next epoch or at the early stop, and when \<open>train\<close> returns, the
  histories have equal length. Inside an epoch they are filled one after the other: the
  training phase appends one entry to each training history and none to the validation
  histories, the validation phase then appends one entry to each validation history,
  and the early-stopping step, which decides on the \<^verbatim>\<open>break\<close>, appends nothing. So
  between the end of the training phase and the end of the validation phase the
  training history is one entry longer.
\<close>

theorem histories_in_step:
  "(for_epochs c [0..<k] (initial_state c) = Inr s \<or> train c = Inr s \<longrightarrow>
      length (hist_loss s) = length (val_hist_loss s) \<and>
      length (hist_accuracy s) = length (val_hist_accuracy s) \<and>
      length (hist_loss s) = length (hist_accuracy s))
   \<and> (training_phase c ep s0 = Inr s1 \<longrightarrow>
      length (hist_loss s1) = Suc (length (hist_loss s0)) \<and>
      length (hist_accuracy s1) = Suc (length (hist_accuracy s0)) \<and>
      length (val_hist_loss s1) = length (val_hist_loss s0) \<and>
      length (val_hist_accuracy s1) = length (val_hist_accuracy s0))
   \<and> (validation_phase c ep s1 = Inr s2 \<longrightarrow>
      length (val_hist_loss s2) = Suc (length (val_hist_loss s1)) \<and>
      length (val_hist_accuracy s2) = Suc (length (val_hist_accuracy s1)) \<and>
      length (hist_loss s2) = length (hist_loss s1) \<and>
      length (hist_accuracy s2) = length (hist_accuracy s1))
   \<and> (early_stopping_step c ep s2 = (brk, s3) \<longrightarrow>
      length (hist_loss s3) = length (hist_loss s2) \<and>
      length (hist_accuracy s3) = length (hist_accuracy s2) \<and>
      length (val_hist_loss s3) = length (val_hist_loss s2) \<and>
      length (val_hist_accuracy s3) = length (val_hist_accuracy s2))"
proof (intro conjI impI)
  assume "for_epochs c [0..<k] (initial_state c) = Inr s \<or> train c = Inr s"
  from run_histories [OF this] obtain n where
    "hist_loss s = map (spec_train_loss c) [0..<n]"
    "hist_accuracy s = map (spec_train_accuracy c) [0..<n]"
    "val_hist_loss s = map (spec_val_loss c) [0..<n]"
    "val_hist_accuracy s = map (spec_val_accuracy c) [0..<n]"
    by blast
  then show "length (hist_loss s) = length (val_hist_loss s)"
    "length (hist_accuracy s) = length (val_hist_accuracy s)"
    "length (hist_loss s) = length (hist_accuracy s)"
    by simp_all
next
  assume "training_phase c ep s0 = Inr s1"
  from training_phase_lengths [OF this]
  show "length (hist_loss s1) = Suc (length (hist_loss s0))"
    "length (hist_accuracy s1) = Suc (length (hist_accuracy s0))"
    "length (val_hist_loss s1) = length (val_hist_loss s0)"
    "length (val_hist_accuracy s1) = length (val_hist_accuracy s0)"
    by simp_all
next
  assume "validation_phase c ep s1 = Inr s2"
  from validation_phase_Inr [OF this]
  show "length (val_hist_loss s2) = Suc (length (val_hist_loss s1))"
    "length (val_hist_accuracy s2) = Suc (length (val_hist_accuracy s1))"
    "length (hist_loss s2) = length (hist_loss s1)"
    "length (hist_accuracy s2) = length (hist_accuracy s1)"
    by simp_all
next
  assume "early_stopping_step c ep s2 = (brk, s3)"
  from early_stopping_step_eq [OF this]
  show "length (hist_loss s3) = length (hist_loss s2)"
    "length (hist_accuracy s3) = length (hist_accuracy s2)"
    "length (val_hist_loss s3) = length (val_hist_loss s2)"
    "length (val_hist_accuracy s3) = length (val_hist_accuracy s2)"
    by simp_all
qed

lemma example_first_epoch: "\<not> isl (epoch example_config 0 (initial_state example_config))"
  by code_simp

lemma initial_lengths:
  "length (hist_loss (initial_state c)) = 0" "length (hist_accuracy (initial_state c)) = 0"
  "length (val_hist_loss (initial_state c)) = 0" "length (val_hist_accuracy (initial_state c)) = 0"
  by (simp_all add: initial_state_def)

theorem histories_in_step_witness:
  "\<exists>s1 s2 brk s3 s.
     training_phase example_config 0 (initial_state example_config) = Inr s1 \<and>
     validation_phase example_config 0 s1 = Inr s2 \<and>
     early_stopping_step example_config 0 s2 = (brk, s3) \<and>
     train example_config = Inr s \<and>
     length (hist_loss s1) = 1 \<and> length (val_hist_loss s1) = 0 \<and>
     length (hist_loss s2) = 1 \<and> length (val_hist_loss s2) = 1 \<and>
     length (hist_loss s3) = 1 \<and> length (val_hist_loss s3) = 1 \<and>
     length (hist_loss s) = length (val_hist_loss s)"
proof -
  from example_first_epoch obtain s1 s2 where
    1: "training_phase example_config 0 (initial_state example_config) = Inr s1" and
    2: "validation_phase example_config 0 s1 = Inr s2"
    by (auto simp: epoch_def split: sum.splits)
  obtain brk s3 where 3: "early_stopping_step example_config 0 s2 = (brk, s3)"
    by (cases "early_stopping_step example_config 0 s2") auto
  obtain s where 4: "train example_config = Inr s"
    by (rule example_run)
  note h = histories_in_step [where c = example_config and k = 0 and s = s and ep = 0
      and ?s0.0 = "initial_state example_config" and ?s1.0 = s1 and ?s2.0 = s2 and brk = brk
      and ?s3.0 = s3]
  from 4 have 5: "for_epochs example_config [0..<0] (initial_state example_config) = Inr s \<or>
      train example_config = Inr s" by simp
  from h [THEN conjunct1, rule_format, OF 5]
    h [THEN conjunct2, THEN conjunct1, rule_format, OF 1]
    h [THEN conjunct2, THEN conjunct2, THEN conjunct1, rule_format, OF 2]
    h [THEN conjunct2, THEN conjunct2, THEN conjunct2, rule_format, OF 3]
    1 2 3 4
  show ?thesis
    by (simp add: initial_lengths)
qed

text \<open>
  The claim as the specification states it, for every point of a run, fails after the
  training phase of the first epoch: one training entry, no validation entry.
\<close>

theorem history_longer_inside_epoch:
  "map_sum fst (\<lambda>s. (length (hist_loss s), length (val_hist_loss s)))
     (training_phase example_config 0 (initial_state example_config)) = Inr (1, 0)"
  by code_simp


subsection \<open>An unknown model type\<close>

lemma unpack_unsupported:
  assumes "model_type c \<notin> {''rnn'', ''cnn'', ''bert''}"
  shows "unpack (model_type c) data = Inl (not_supported (model_type c))"
  using assms by (simp add: unpack_def)

text \<open>
  Claim C2, as the code has it. For a model type other than \<open>rnn\<close>, \<open>cnn\<close> and
  \<open>bert\<close>, a run with at least one epoch and at least one training batch raises the
  \<open>ValueError\<close> when it unpacks the first training batch: nothing but the move of the
  model to the device has happened, no forward pass in particular. The unpacking site
  and the forward-dispatch site both raise this error for such a model type, in whatever
  state they are reached.
\<close>

theorem unsupported_model_type:
  assumes "model_type c \<notin> {''rnn'', ''cnn'', ''bert''}"
  shows "(0 < n_epochs c \<and> batches (train_loader c) \<noteq> [] \<longrightarrow>
      (\<exists>s. train c = Inl (not_supported (model_type c), s) \<and>
           events s = [Model_to (device_of c)]))
    \<and> prepare c ph ep i data s0 = Inl (not_supported (model_type c), s0)
    \<and> forward_dispatch c ph ep i seq attn s0 = Inl (not_supported (model_type c), s0)"
proof (intro conjI impI)
  assume a: "0 < n_epochs c \<and> batches (train_loader c) \<noteq> []"
  then obtain d ds where d: "batches (train_loader c) = d # ds"
    by (cases "batches (train_loader c)") auto
  from a have e: "[0..<n_epochs c] = 0 # [1..<n_epochs c]"
    by (simp add: upt_conv_Cons)
  from assms have r: "model_type c \<noteq> ''rnn''" by auto
  let ?s = "(initial_state c)\<lparr>running_loss := PyInt 0, running_accuracy := PyInt 0, it := Some 0\<rparr>"
  have "train_iteration c 0 (0, d) ((initial_state c)\<lparr>running_loss := PyInt 0, running_accuracy := PyInt 0\<rparr>)
      = Inl (not_supported (model_type c), ?s)"
    by (simp add: train_iteration_def prepare_def unpack_unsupported [OF assms])
  then have "train c = Inl (not_supported (model_type c), ?s)"
    by (simp add: train_def e epoch_def training_phase_def init_hidden_if_rnn_def r d)
  moreover have "events ?s = [Model_to (device_of c)]"
    by (simp add: initial_state_def)
  ultimately show "\<exists>s. train c = Inl (not_supported (model_type c), s) \<and>
      events s = [Model_to (device_of c)]" by blast
next
  show "prepare c ph ep i data s0 = Inl (not_supported (model_type c), s0)"
    by (simp add: prepare_def unpack_unsupported [OF assms])
next
  from assms show "forward_dispatch c ph ep i seq attn s0 = Inl (not_supported (model_type c), s0)"
    by (simp add: forward_dispatch_def)
qed

theorem unsupported_model_type_witness:
  "(\<exists>s. train unsupported_config = Inl (not_supported ''gru'', s) \<and> events s = [Model_to Cpu])
   \<and> forward_dispatch unsupported_config Training 0 0 (loaded [2, 7]) torch_ones_1
        (initial_state unsupported_config) =
      Inl (not_supported ''gru'', initial_state unsupported_config)"
proof -
  have 1: "model_type unsupported_config \<notin> {''rnn'', ''cnn'', ''bert''}"
    by (simp add: unsupported_config_def example_config_def)
  have 2: "0 < n_epochs unsupported_config \<and> batches (train_loader unsupported_config) \<noteq> []"
    by (simp add: unsupported_config_def example_config_def)
  have 3: "model_type unsupported_config = ''gru''" "device_of unsupported_config = Cpu"
    by (simp_all add: unsupported_config_def example_config_def device_of_def)
  from unsupported_model_type [OF 1, THEN conjunct1, rule_format, OF 2]
    unsupported_model_type [OF 1, THEN conjunct2, THEN conjunct2]
  show ?thesis
    by (simp add: 3)
qed

text \<open>
  The claim as the specification states it fails when the loop body is never entered:
  with no epoch \<open>train\<close> returns after plotting empty histories, and with an empty
  training loader it raises \<open>UnboundLocalError\<close> at the history update.
\<close>

theorem unsupported_model_type_unnoticed:
  "map_sum fst events (train unsupported_no_epochs) = Inr [Model_to Cpu, Plot [] [] [] []]
   \<and> map_sum fst events (train unsupported_empty_loader) = Inl (UnboundLocalError ''it'')"
  by code_simp

subsection \<open>The hidden state of the recurrent variant\<close>

text \<open>
  Claim C3 does not hold of the code. With three examples in batches of two, the second
  training batch has one example, and the hidden state passed to the forward call has
  the shape \<open>(n_layers, 2, hidden_dim)\<close> of the loader's batch size, not
  \<open>(n_layers, 1, hidden_dim)\<close>: the LSTM rejects it and the run ends there.
\<close>

theorem short_final_batch_fails:
  "map_sum (\<lambda>r. (fst r, last (events (snd r)))) (length \<circ> hist_loss) (train short_final_batch) =
     Inl (TensorError,
          Forward Training 0 1
            (Rnn_args (loaded [1, 7])
               (\<lparr>shape = [2, 2, 3], dev = Cpu, ops = [Data_op, LSTM_op, Data_op, Zero_op]\<rparr>,
                \<lparr>shape = [2, 2, 3], dev = Cpu, ops = [Data_op, LSTM_op, Data_op, Zero_op]\<rparr>)))"
  by code_simp

subsection \<open>Training loaders of fewer than two batches\<close>

lemma fdiv_int_zero: "fdiv_int v 0 \<noteq> Fin x"
  by (cases v) auto

lemma accumulated_one: "accumulated f ph ep (Suc 0) = f ph ep 0"
  by (simp add: accumulated_def)

text \<open>
  Claim C8. With exactly one training batch the divisor \<open>it\<close> is zero: every
  training-history entry of a run that returns is the loss, or the accuracy, of the
  single batch divided by zero. With no training batch, a run of at least one epoch
  raises \<open>UnboundLocalError\<close> for \<open>it\<close> at the history update (when the model type is
  \<open>rnn\<close> the model must be an \<open>RNN\<close>, or \<^verbatim>\<open>init_hidden\<close> fails before). So a
  training-history entry that is a finite number needs at least two training batches.
\<close>

theorem training_mean_needs_two_batches:
  "(n_train c = 1 \<and> train c = Inr s \<and> ep < length (hist_loss s) \<longrightarrow>
      hist_loss s ! ep = Scalar_tensor (fdiv_int (criterion c Training ep 0) 0) \<and>
      hist_accuracy s ! ep = Scalar_tensor (fdiv_int (accuracy c Training ep 0) 0))
   \<and> (n_train c = 0 \<and> 0 < n_epochs c \<and> (model_type c = ''rnn'' \<longrightarrow> (\<exists>r. model c = RNN_model r)) \<longrightarrow>
      (\<exists>s'. train c = Inl (UnboundLocalError ''it'', s')))
   \<and> (train c = Inr s \<and> ep < length (hist_loss s) \<and> hist_loss s ! ep = Scalar_tensor (Fin x) \<longrightarrow>
      2 \<le> n_train c)"
proof (intro conjI impI)
  assume a: "n_train c = 1 \<and> train c = Inr s \<and> ep < length (hist_loss s)"
  with train_Inr [of c s] obtain n where
    "hist_loss s = map (spec_train_loss c) [0..<n]"
    "hist_accuracy s = map (spec_train_accuracy c) [0..<n]"
    by blast
  with a show "hist_loss s ! ep = Scalar_tensor (fdiv_int (criterion c Training ep 0) 0)"
    "hist_accuracy s ! ep = Scalar_tensor (fdiv_int (accuracy c Training ep 0) 0)"
    by (simp_all add: spec_train_loss_def spec_train_accuracy_def accumulated_one)
next
  assume a: "n_train c = 0 \<and> 0 < n_epochs c \<and>
    (model_type c = ''rnn'' \<longrightarrow> (\<exists>r. model c = RNN_model r))"
  then have b: "batches (train_loader c) = []" by (simp add: n_train_def)
  from a have e: "[0..<n_epochs c] = 0 # [1..<n_epochs c]"
    by (simp add: upt_conv_Cons)
  let ?s0 = "(initial_state c)\<lparr>running_loss := PyInt 0, running_accuracy := PyInt 0\<rparr>"
  have "\<exists>s1. init_hidden_if_rnn c Training (train_loader c) ?s0 = Inr s1"
  proof (cases "model_type c = ''rnn''")
    case True
    with a obtain r where "model c = RNN_model r" by auto
    with True show ?thesis
      by (simp add: init_hidden_if_rnn_def call_init_hidden_def)
  next
    case False
    then show ?thesis
      by (simp add: init_hidden_if_rnn_def)
  qed
  then obtain s1 where 1: "init_hidden_if_rnn c Training (train_loader c) ?s0 = Inr s1" ..
  from init_hidden_if_rnn_Inr [OF 1] have "it (scheduler_step c s1) = None"
    by (simp add: core_def scheduler_step_def emit_def initial_state_def)
  then have "update_training_history (scheduler_step c s1) =
      Inl (UnboundLocalError ''it'', scheduler_step c s1)"
    by (simp add: update_training_history_def)
  with 1 have "train c = Inl (UnboundLocalError ''it'', scheduler_step c s1)"
    by (simp add: train_def e epoch_def training_phase_def b)
  then show "\<exists>s'. train c = Inl (UnboundLocalError ''it'', s')" by blast
next
  assume a: "train c = Inr s \<and> ep < length (hist_loss s) \<and> hist_loss s ! ep = Scalar_tensor (Fin x)"
  with train_Inr [of c s] obtain n where n:
    "hist_loss s = map (spec_train_loss c) [0..<n]"
    "0 < n \<longrightarrow> 0 < n_train c \<and> 0 < n_val c"
    by blast
  with a have "ep < n" by simp
  with n a have p: "0 < n_train c" and
    "spec_train_loss c ep = Scalar_tensor (Fin x)" by auto
  then have "n_train c \<noteq> 1"
    by (auto simp: spec_train_loss_def fdiv_int_zero)
  with p show "2 \<le> n_train c" by simp
qed

lemma one_batch_returns: "\<not> isl (train one_batch)"
  by code_simp

lemma one_batch_summary:
  "map_sum fst (\<lambda>s. (length (hist_loss s), hist_loss s ! 0, hist_accuracy s ! 0)) (train one_batch) =
     Inr (2, Scalar_tensor PInf, Scalar_tensor PInf)"
  by code_simp

lemma no_batch_facts:
  "n_train no_batch = 0" "0 < n_epochs no_batch" "model no_batch = RNN_model (RNN_init 10 5 4 3 2)"
  "n_train one_batch = 1" "n_train example_config = 2"
  by (simp_all add: no_batch_def one_batch_def example_config_def n_train_def)

lemma example_first_entry:
  "map_sum fst (\<lambda>s. hist_loss s ! 0) (train example_config) = Inr (Scalar_tensor (Fin (3 / 2)))"
  by code_simp

theorem training_mean_needs_two_batches_witness:
  "(\<exists>s. train one_batch = Inr s \<and> hist_loss s ! 0 = Scalar_tensor PInf \<and>
        fdiv_int (criterion one_batch Training 0 0) 0 = PInf)
   \<and> (\<exists>s. train no_batch = Inl (UnboundLocalError ''it'', s))
   \<and> (\<exists>s. train example_config = Inr s \<and> hist_loss s ! 0 = Scalar_tensor (Fin (3 / 2)) \<and>
        2 \<le> n_train example_config)"
proof (intro conjI)
  from one_batch_returns obtain s where s: "train one_batch = Inr s"
    by (cases "train one_batch") auto
  with one_batch_summary have l: "0 < length (hist_loss s)" "hist_loss s ! 0 = Scalar_tensor PInf"
    by simp_all
  from training_mean_needs_two_batches [of one_batch s 0, THEN conjunct1] s l no_batch_facts
  show "\<exists>s. train one_batch = Inr s \<and> hist_loss s ! 0 = Scalar_tensor PInf \<and>
      fdiv_int (criterion one_batch Training 0 0) 0 = PInf"
    by auto
  from training_mean_needs_two_batches [of no_batch, THEN conjunct2, THEN conjunct1] no_batch_facts
  show "\<exists>s. train no_batch = Inl (UnboundLocalError ''it'', s)"
    by simp
  obtain t where t: "train example_config = Inr t" "length (hist_loss t) = 2"
    by (rule example_run)
  with example_first_entry have "hist_loss t ! 0 = Scalar_tensor (Fin (3 / 2))" by simp
  with training_mean_needs_two_batches [where c = example_config and s = t and ep = 0
      and x = "3 / 2", THEN conjunct2, THEN conjunct2] t
  show "\<exists>s. train example_config = Inr s \<and> hist_loss s ! 0 = Scalar_tensor (Fin (3 / 2)) \<and>
      2 \<le> n_train example_config"
    by auto
qed

subsection \<open>Devices\<close>

lemma extends_refl [simp]: "extends c s s"
  by (simp add: extends_def)


lemma extends_same_events: "events s' = events s \<Longrightarrow> extends c s s'"
  by (simp add: extends_def)


lemma dev_to_device [simp]: "dev (to_device d x) = d"
  by (simp add: to_device_def)

lemma dev_type_LongTensor [simp]: "dev (type_LongTensor x) = Cpu"
  by (simp add: type_LongTensor_def)




lemma extends_set_hidden [simp]:
  "extends c (set_hidden ph v s) s' = extends c s s'"
  "extends c s (set_hidden ph v s') = extends c s s'"
  by (simp_all add: extends_def)



lemma extends_update [simp]:
  "extends c s (s'\<lparr>it := i\<rparr>) = extends c s s'"
  "extends c (s\<lparr>it := i\<rparr>) s' = extends c s s'"
  "extends c s (s'\<lparr>running_loss := l\<rparr>) = extends c s s'"
  "extends c (s\<lparr>running_loss := l\<rparr>) s' = extends c s s'"
  "extends c s (s'\<lparr>running_accuracy := a\<rparr>) = extends c s s'"
  "extends c (s\<lparr>running_accuracy := a\<rparr>) s' = extends c s s'"
  "extends c s (s'\<lparr>n_batch_validation := n\<rparr>) = extends c s s'"
  "extends c (s\<lparr>n_batch_validation := n\<rparr>) s' = extends c s s'"
  "extends c s (s'\<lparr>loss_validation := l\<rparr>) = extends c s s'"
  "extends c (s\<lparr>loss_validation := l\<rparr>) s' = extends c s s'"
  "extends c s (s'\<lparr>accuracy_validation := a\<rparr>) = extends c s s'"
  "extends c (s\<lparr>accuracy_validation := a\<rparr>) s' = extends c s s'"
  "extends c s (s'\<lparr>hist_loss := hl\<rparr>) = extends c s s'"
  "extends c s (s'\<lparr>hist_accuracy := ha\<rparr>) = extends c s s'"
  "extends c s (s'\<lparr>val_hist_loss := vl\<rparr>) = extends c s s'"
  "extends c s (s'\<lparr>val_hist_accuracy := va\<rparr>) = extends c s s'"
  "extends c s (s'\<lparr>observed := ob\<rparr>) = extends c s s'"
  by (simp_all add: extends_def)




lemma final_state_simps [simp]:
  "final_state (Inl (e, s)) = s" "final_state (Inr s) = s"
  by (simp_all add: final_state_def)

























end
